theory Spec2Isabelle
  imports Main "HOL-Library.Word"
begin

unbundle bit_operations_syntax

section \<open>The gianfar packet ring engine (drivers/net/gianfar.c)\<close>

text \<open>
  A shallow embedding of the buffer-descriptor ring engine of the gianfar Ethernet driver,
  in the default build (neither \<^verbatim>\<open>CONFIG_RX_TX_BUFF_XCHG\<close> nor \<^verbatim>\<open>CONFIG_AS_FASTPATH\<close> nor
  \<^verbatim>\<open>CONFIG_GFAR_HW_TCP_RECEIVE_OFFLOAD\<close> nor \<^verbatim>\<open>CONFIG_GIANFAR_L2SRAM\<close>). Pointers into a
  descriptor ring are indices relative to the ring's base; sizes and addresses are natural
  numbers; descriptor words and device registers are 32-bit words; counters have the width
  of their C type.
\<close>

type_synonym u16 = "16 word"
type_synonym u32 = "32 word"
type_synonym u64 = "64 word"

subsection \<open>Constants of gianfar.h\<close>

text \<open>
  Modelled from the spec: the header gianfar.h is not among the sources. The spec names the
  descriptor flags (\<open>READY\<close>, \<open>EMPTY\<close>, \<open>WRAP\<close>, \<open>INTERRUPT\<close>, \<open>LAST\<close>) as members of a status
  bit set above a 16-bit length; the values are those of the eTSEC descriptor layout.
\<close>

definition TXBD_READY :: u16 where "TXBD_READY = 0x8000"
definition TXBD_WRAP :: u16 where "TXBD_WRAP = 0x2000"
definition TXBD_INTERRUPT :: u16 where "TXBD_INTERRUPT = 0x1000"
definition TXBD_LAST :: u16 where "TXBD_LAST = 0x0800"
definition TXBD_CRC :: u16 where "TXBD_CRC = 0x0400"
definition TXBD_TOE :: u16 where "TXBD_TOE = 0x0002"

definition RXBD_EMPTY :: u16 where "RXBD_EMPTY = 0x8000"
definition RXBD_WRAP :: u16 where "RXBD_WRAP = 0x2000"
definition RXBD_INTERRUPT :: u16 where "RXBD_INTERRUPT = 0x1000"
definition RXBD_LAST :: u16 where "RXBD_LAST = 0x0800"
definition RXBD_LARGE :: u16 where "RXBD_LARGE = 0x0020"
definition RXBD_NONOCTET :: u16 where "RXBD_NONOCTET = 0x0010"
definition RXBD_SHORT :: u16 where "RXBD_SHORT = 0x0008"
definition RXBD_CRCERR :: u16 where "RXBD_CRCERR = 0x0004"
definition RXBD_OVERRUN :: u16 where "RXBD_OVERRUN = 0x0002"
definition RXBD_TRUNCATED :: u16 where "RXBD_TRUNCATED = 0x0001"

definition RXBD_ERR :: u16 where
  "RXBD_ERR = RXBD_LARGE OR RXBD_SHORT OR RXBD_NONOCTET OR RXBD_CRCERR OR RXBD_OVERRUN
     OR RXBD_TRUNCATED"

definition BD_LFLAG :: "u16 \<Rightarrow> u32" where
  "BD_LFLAG flags = push_bit 16 (ucast flags)"

definition BD_LENGTH_MASK :: u32 where "BD_LENGTH_MASK = 0x0000ffff"

definition GMAC_FCB_LEN :: nat where "GMAC_FCB_LEN = 8"
definition RXBUF_ALIGNMENT :: nat where "RXBUF_ALIGNMENT = 64"
definition ETH_FCS_LEN :: nat where "ETH_FCS_LEN = 4"
definition ETH_HLEN :: nat where "ETH_HLEN = 14"

definition RXFCB_VLN :: u16 where "RXFCB_VLN = 0x8000"
definition RXFCB_CIP :: u16 where "RXFCB_CIP = 0x0800"
definition RXFCB_CTU :: u16 where "RXFCB_CTU = 0x0400"
definition RXFCB_CSUM_MASK :: u16 where "RXFCB_CSUM_MASK = 0x0f00"

definition NETDEV_TX_OK :: int where "NETDEV_TX_OK = 0"
definition NETDEV_TX_BUSY :: int where "NETDEV_TX_BUSY = 16"

definition SKBTX_HW_TSTAMP :: "8 word" where "SKBTX_HW_TSTAMP = 1"
definition SKBTX_IN_PROGRESS :: "8 word" where "SKBTX_IN_PROGRESS = 4"

definition CHECKSUM_NONE :: nat where "CHECKSUM_NONE = 0"
definition CHECKSUM_UNNECESSARY :: nat where "CHECKSUM_UNNECESSARY = 1"
definition CHECKSUM_PARTIAL :: nat where "CHECKSUM_PARTIAL = 3"

text \<open>
  Modelled from the spec: build constants of the kernel (cache line, buffer headroom, size of
  the buffer header), not among the sources; the spec only speaks of a buffer of capacity
  \<open>rx_buffer_size + alignment_slack\<close>. No theorem below depends on their values.
\<close>

definition SMP_CACHE_BYTES :: nat where "SMP_CACHE_BYTES = 32"
definition NET_SKB_PAD :: nat where "NET_SKB_PAD = 32"
definition sizeof_sk_buff :: nat where "sizeof_sk_buff = 192"

definition SKB_DATA_ALIGN :: "nat \<Rightarrow> nat" where
  "SKB_DATA_ALIGN x = ((x + (SMP_CACHE_BYTES - 1)) div SMP_CACHE_BYTES) * SMP_CACHE_BYTES"

subsection \<open>Data model\<close>

text \<open>
  A buffer descriptor (\<^verbatim>\<open>struct txbd8\<close>, \<^verbatim>\<open>struct rxbd8\<close>): the C union overlays the 32-bit
  \<open>lstatus\<close> with the 16-bit \<open>status\<close> (high half) and \<open>length\<close> (low half) of the big-endian
  device.
\<close>

record bd8 =
  lstatus :: u32
  bufPtr :: u32

type_synonym txbd8 = bd8
type_synonym rxbd8 = bd8

definition bd_status :: "bd8 \<Rightarrow> u16" where
  "bd_status bd = ucast (drop_bit 16 (lstatus bd))"

definition bd_length :: "bd8 \<Rightarrow> u16" where
  "bd_length bd = ucast (lstatus bd)"

definition set_bd_status :: "u16 \<Rightarrow> bd8 \<Rightarrow> bd8" where
  "set_bd_status s bd = bd\<lparr>lstatus := BD_LFLAG s OR (lstatus bd AND BD_LENGTH_MASK)\<rparr>"

text \<open>One page fragment of a packet (\<^verbatim>\<open>skb_frag_t\<close>).\<close>

record skb_frag =
  page :: nat
  page_offset :: nat
  frag_size :: nat

text \<open>
  A packet buffer (\<^verbatim>\<open>struct sk_buff\<close> with its shared info). \<open>head\<close> is the address of the
  data area and identifies the buffer; \<open>end_off\<close> is \<^verbatim>\<open>skb_end_pointer(skb) - skb->head\<close>;
  \<open>frags\<close> holds \<^verbatim>\<open>frags[0 .. nr_frags-1]\<close>. The three header lengths stand for the bytes of
  the packet that the segmentation code reads (Ethernet header length, the IP header's
  \<open>ihl\<close> and the TCP header's \<open>doff\<close>).
\<close>

record sk_buff =
  head :: nat
  data :: nat
  len :: nat
  data_len :: nat
  end_off :: nat
  truesize :: nat
  users :: nat
  cloned :: bool
  frags :: "skb_frag list"
  tx_flags :: "8 word"
  gso_size :: nat
  ip_summed :: nat
  vlan_tag_present :: bool
  queue_mapping :: nat
  protocol :: u16
  mac_len :: nat
  iph_ihl :: nat
  th_doff :: nat

text \<open>
  Modelled from the spec: the buffer accessors of the kernel (linux/skbuff.h) are not among
  the sources. The spec has a buffer of "fixed capacity" whose data is "trimmed to actual
  length" and from which a "prepended metadata header" is stripped or to which it is
  prepended; these are the usual movements of the data pointer and the length.
\<close>

definition nr_frags :: "sk_buff \<Rightarrow> nat" where
  "nr_frags skb = length (frags skb)"

definition skb_headlen :: "sk_buff \<Rightarrow> nat" where
  "skb_headlen skb = len skb - data_len skb"

definition skb_headroom :: "sk_buff \<Rightarrow> nat" where
  "skb_headroom skb = data skb - head skb"

definition skb_is_nonlinear :: "sk_buff \<Rightarrow> bool" where
  "skb_is_nonlinear skb = (data_len skb \<noteq> 0)"

definition skb_is_gso :: "sk_buff \<Rightarrow> bool" where
  "skb_is_gso skb = (gso_size skb \<noteq> 0)"

definition skb_reserve :: "nat \<Rightarrow> sk_buff \<Rightarrow> sk_buff" where
  "skb_reserve n skb = skb\<lparr>data := data skb + n\<rparr>"

definition skb_push :: "nat \<Rightarrow> sk_buff \<Rightarrow> sk_buff" where
  "skb_push n skb = skb\<lparr>data := data skb - n, len := len skb + n\<rparr>"

definition skb_pull_unchecked :: "nat \<Rightarrow> sk_buff \<Rightarrow> sk_buff" where
  "skb_pull_unchecked n skb = skb\<lparr>data := data skb + n, len := len skb - n\<rparr>"

definition skb_pull :: "nat \<Rightarrow> sk_buff \<Rightarrow> sk_buff" where
  "skb_pull n skb = (if n > len skb then skb else skb_pull_unchecked n skb)"

definition skb_put :: "nat \<Rightarrow> sk_buff \<Rightarrow> sk_buff" where
  "skb_put n skb = skb\<lparr>len := len skb + n\<rparr>"

text \<open>
  Modelled from the spec: \<^verbatim>\<open>skb_is_recycleable\<close> and \<^verbatim>\<open>skb_recycle\<close> live in the kernel's
  buffer code, not among the sources. The spec's recycleable predicate is "linear,
  correctly-sized, single-reference"; recycling returns the buffer to its freshly allocated
  shape.
\<close>

definition skb_is_recycleable :: "sk_buff \<Rightarrow> nat \<Rightarrow> bool" where
  "skb_is_recycleable skb skb_size =
     (\<not> skb_is_nonlinear skb
      \<and> SKB_DATA_ALIGN (skb_size + NET_SKB_PAD) \<le> end_off skb
      \<and> users skb = 1 \<and> \<not> cloned skb)"

definition skb_recycle :: "sk_buff \<Rightarrow> sk_buff" where
  "skb_recycle skb =
     skb\<lparr>data := head skb + NET_SKB_PAD, len := 0, data_len := 0, users := 1,
         cloned := False, frags := [], tx_flags := 0, gso_size := 0,
         ip_summed := CHECKSUM_NONE, vlan_tag_present := False, queue_mapping := 0,
         protocol := 0, mac_len := 0, iph_ihl := 0, th_doff := 0\<rparr>"

text \<open>The statistics the ring engine maintains (\<^verbatim>\<open>dev->stats\<close>, \<^verbatim>\<open>priv->extra_stats\<close>).\<close>

record net_device_stats =
  rx_length_errors :: u32
  rx_frame_errors :: u32
  rx_crc_errors :: u32
  tx_errors :: u32
  tx_fifo_errors :: u32

record gfar_extra_stats =
  rx_trunc :: u64
  rx_large :: u64
  rx_short :: u64
  rx_nonoctet :: u64
  rx_crcerr :: u64
  rx_overrun :: u64
  rx_skbmissing :: u64
  kernel_dropped :: u64

text \<open>
  A transmit queue. \<open>tx_bd_base\<close> is the ring itself (the descriptors at
  \<^verbatim>\<open>tx_bd_base[0 .. tx_ring_size-1]\<close>); \<open>cur_tx\<close> and \<open>dirty_tx\<close> are the offsets of the C
  pointers from the base. \<open>tx_skbuff\<close> is the contents of the array of in-flight buffers
  and \<open>tx_skbuff_ptr\<close> the pointer the C field holds (\<open>None\<close> is \<^verbatim>\<open>NULL\<close>); \<open>tx_grp\<close> is the
  index of the interrupt group the queue belongs to and \<open>tx_stopped\<close> the stopped bit of
  the stack's queue for this ring.
\<close>

record gfar_priv_tx_q =
  tx_bd_base :: "txbd8 list"
  tx_bd_dma_base :: nat
  tx_ring_size :: nat
  cur_tx :: nat
  dirty_tx :: nat
  tx_skbuff :: "sk_buff option list"
  tx_skbuff_ptr :: "nat option"
  skb_curtx :: nat
  skb_dirtytx :: nat
  num_txbdfree :: nat
  tx_qindex :: nat
  tx_grp :: nat
  tx_bytes :: u32
  tx_packets :: u32
  tx_stopped :: bool

record gfar_priv_rx_q =
  rx_bd_base :: "rxbd8 list"
  rx_ring_size :: nat
  cur_rx :: nat
  rx_skbuff :: "sk_buff option list"
  rx_skbuff_ptr :: "nat option"
  skb_currx :: nat
  rx_qindex :: nat
  rx_packets :: u32
  rx_bytes :: u32
  rx_dropped :: u32

text \<open>
  The recycle context. A \<^verbatim>\<open>struct sk_buff_head\<close> lives at an address; \<open>recycle_q\<close> and
  \<open>global_recycle_q\<close> are such addresses (the latter may be \<^verbatim>\<open>NULL\<close>), so that exchanging
  two lists is an exchange of pointers.
\<close>

record gfar_recycle_cntxt_percpu =
  recycle_q :: nat
  free_count :: u32
  alloc_count :: u32

record gfar_recycle_cntxt =
  local_percpu :: "nat \<Rightarrow> gfar_recycle_cntxt_percpu"
  global_recycle_q :: "nat option"
  recycle_max :: nat
  free_swap_count :: u32
  alloc_swap_count :: u32

text \<open>The registers of one interrupt group that the engine touches (\<^verbatim>\<open>struct gfar\<close>).\<close>

record gfar_regs =
  imask :: u32
  ievent :: u32
  dmactrl :: u32
  maccfg1 :: u32
  rstat :: u32
  tstat :: u32

record gfar_priv_grp =
  regs :: gfar_regs
  rstat_prev :: u32
  rx_bit_map :: u32
  tx_bit_map :: u32
  napi_rx_scheduled :: bool

text \<open>
  A store to descriptor memory: which ring, which descriptor, which part of it (the whole
  status-and-length word, the buffer pointer, or the 16-bit status alone) and the value.
\<close>

datatype ring_id = TX_ring nat | RX_ring nat

datatype bd_field = F_lstatus | F_bufPtr | F_status

record bd_write =
  w_ring :: ring_id
  w_index :: nat
  w_field :: bd_field
  w_value :: u32

text \<open>
  What can go wrong beyond an error return. \<open>OutOfFuel\<close> is not an outcome of the program:
  it is the answer of a bounded model of a loop whose bound was too small.
\<close>

datatype fault =
  NullPointer | DivideByZero | DoubleFree | UseAfterFree | SkbOverPanic | OutOfBounds
  | OutOfFuel

text \<open>
  The receive frame control block (\<^verbatim>\<open>struct rxfcb\<close>), as far as the engine reads it.
\<close>

record rxfcb =
  fcb_flags :: u16
  fcb_rq :: nat
  fcb_vlctl :: u16

text \<open>
  The steps of the recycler that matter to other processors: taking and releasing the lock
  of the global list (\<^verbatim>\<open>recycle_lock\<close>), storing the global list pointer, storing the list
  pointer of a processor, removing the first buffer of the list at an address
  (\<^verbatim>\<open>__skb_dequeue\<close>), adding one in front (\<^verbatim>\<open>__skb_queue_head\<close>), and asking the system
  allocator for a buffer.
\<close>

datatype recycle_event =
  Ev_lock | Ev_unlock | Ev_global_store nat | Ev_local_store nat nat
  | Ev_dequeue nat | Ev_queue_head nat | Ev_alloc

text \<open>
  The device (\<^verbatim>\<open>struct gfar_private\<close> with the fields of its \<^verbatim>\<open>net_device\<close>), together with
  the parts of the kernel the engine talks to:
  \<^item> \<open>skb_queue_mem\<close>: the contents of the \<^verbatim>\<open>sk_buff_head\<close> at each address;
  \<^item> \<open>cur_cpu\<close>: the processor the code runs on (\<^verbatim>\<open>get_cpu()\<close>);
  \<^item> \<open>alloc_script\<close>: what the system allocator answers to the coming requests for a
    buffer, \<open>None\<close> for a failure and \<open>Some a\<close> for a buffer at address \<open>a\<close>; an exhausted
    script fails;
  \<^item> \<open>kfreed\<close>: the buffers handed to \<^verbatim>\<open>dev_kfree_skb_any\<close>, latest first;
  \<^item> \<open>delivered\<close>: the packets handed to the stack by \<^verbatim>\<open>netif_receive_skb\<close>, latest first;
  \<^item> \<open>rx_fcb\<close>, \<open>rx_eth_proto\<close>: what the hardware wrote in front of a received frame (its
    frame control block) and the protocol the frame's Ethernet header announces;
  \<^item> \<open>recycle_trace\<close>: what the recycler did to its lock, its list pointers and its lists,
    in the order of the program, latest first;
  \<^item> \<open>netif_rx_drops\<close>: the verdict of the stack on a delivered packet (\<open>True\<close> is
    \<^verbatim>\<open>NET_RX_DROP\<close>);
  \<^item> \<open>skb_checksum_help_ret\<close>: what \<^verbatim>\<open>skb_checksum_help\<close> returns for a packet (0 on
    success);
  \<^item> \<open>tcp_ack_recycles\<close>: whether \<^verbatim>\<open>skb_tcp_ack_recycle\<close> keeps a transmitted buffer;
  \<^item> \<open>bd_trace\<close>: the stores to descriptor memory in the order of issue, latest first;
  \<^item> \<open>kmem\<close>: which addresses of arrays and descriptor regions are currently allocated.
\<close>

record gfar_private =
  tx_queue :: "gfar_priv_tx_q list"
  rx_queue :: "gfar_priv_rx_q list"
  gfargrp :: "gfar_priv_grp list"
  recycle :: gfar_recycle_cntxt
  rx_buffer_size :: nat
  stats :: net_device_stats
  extra_stats :: gfar_extra_stats
  hwts_tx_en :: bool
  hwts_tx_en_ioctl :: bool
  errata_76 :: bool
  errata_12 :: bool
  errata_a002 :: bool
  feat_rxcsum :: bool
  feat_hw_vlan_rx :: bool
  feat_hw_vlan_tx :: bool
  has_timer :: bool
  padding :: nat
  skb_queue_mem :: "nat \<Rightarrow> sk_buff list"
  cur_cpu :: nat
  alloc_script :: "nat option list"
  kfreed :: "sk_buff list"
  delivered :: "sk_buff list"
  netif_rx_drops :: "sk_buff \<Rightarrow> bool"
  rx_fcb :: "sk_buff \<Rightarrow> rxfcb"
  rx_eth_proto :: "sk_buff \<Rightarrow> u16"
  recycle_trace :: "recycle_event list"
  skb_checksum_help_ret :: "sk_buff \<Rightarrow> int"
  tcp_ack_recycles :: "sk_buff \<Rightarrow> bool"
  bd_trace :: "bd_write list"
  kmem :: "nat \<Rightarrow> bool"

subsection \<open>Receive error accounting\<close>

definition count_errors :: "u16 \<Rightarrow> gfar_private \<Rightarrow> gfar_private" where
  "count_errors status priv =
     (if status AND RXBD_TRUNCATED \<noteq> 0 then
        priv\<lparr>stats := (stats priv)\<lparr>rx_length_errors := rx_length_errors (stats priv) + 1\<rparr>,
             extra_stats := (extra_stats priv)\<lparr>rx_trunc := rx_trunc (extra_stats priv) + 1\<rparr>\<rparr>
      else
        let p1 = (if status AND (RXBD_LARGE OR RXBD_SHORT) \<noteq> 0 then
                    priv\<lparr>stats := (stats priv)
                             \<lparr>rx_length_errors := rx_length_errors (stats priv) + 1\<rparr>,
                         extra_stats :=
                           (if status AND RXBD_LARGE \<noteq> 0
                            then (extra_stats priv)
                                   \<lparr>rx_large := rx_large (extra_stats priv) + 1\<rparr>
                            else (extra_stats priv)
                                   \<lparr>rx_short := rx_short (extra_stats priv) + 1\<rparr>)\<rparr>
                  else priv);
            p2 = (if status AND RXBD_NONOCTET \<noteq> 0 then
                    p1\<lparr>stats := (stats p1)\<lparr>rx_frame_errors := rx_frame_errors (stats p1) + 1\<rparr>,
                       extra_stats := (extra_stats p1)
                                        \<lparr>rx_nonoctet := rx_nonoctet (extra_stats p1) + 1\<rparr>\<rparr>
                  else p1);
            p3 = (if status AND RXBD_CRCERR \<noteq> 0 then
                    p2\<lparr>extra_stats := (extra_stats p2)
                                        \<lparr>rx_crcerr := rx_crcerr (extra_stats p2) + 1\<rparr>,
                       stats := (stats p2)\<lparr>rx_crc_errors := rx_crc_errors (stats p2) + 1\<rparr>\<rparr>
                  else p2)
        in (if status AND RXBD_OVERRUN \<noteq> 0 then
              p3\<lparr>extra_stats := (extra_stats p3)
                                  \<lparr>rx_overrun := rx_overrun (extra_stats p3) + 1\<rparr>,
                 stats := (stats p3)\<lparr>rx_crc_errors := rx_crc_errors (stats p3) + 1\<rparr>\<rparr>
            else p3))"

subsection \<open>The system allocator and buffer queues\<close>

text \<open>
  Modelled from the spec: the system allocator and the list primitives of the kernel
  (\<^verbatim>\<open>netdev_alloc_skb\<close>, \<^verbatim>\<open>dev_kfree_skb_any\<close>, \<^verbatim>\<open>__skb_dequeue\<close>, \<^verbatim>\<open>__skb_queue_head\<close>,
  \<^verbatim>\<open>skb_queue_len\<close>) are not among the sources. A free list is a "bounded queue of
  BufferHandle"; a buffer is "released to the system allocator" or "allocated fresh" from it,
  and "allocation failures return error values".
\<close>

definition dev_kfree_skb_any :: "sk_buff \<Rightarrow> gfar_private \<Rightarrow> gfar_private" where
  "dev_kfree_skb_any skb priv = priv\<lparr>kfreed := skb # kfreed priv\<rparr>"

definition fresh_skb :: "nat \<Rightarrow> nat \<Rightarrow> sk_buff" where
  "fresh_skb a sz =
     \<lparr>head = a, data = a + NET_SKB_PAD, len = 0, data_len = 0,
      end_off = SKB_DATA_ALIGN (sz + NET_SKB_PAD),
      truesize = SKB_DATA_ALIGN (sz + NET_SKB_PAD) + sizeof_sk_buff,
      users = 1, cloned = False, frags = [], tx_flags = 0, gso_size = 0,
      ip_summed = CHECKSUM_NONE, vlan_tag_present = False, queue_mapping = 0,
      protocol = 0, mac_len = 0, iph_ihl = 0, th_doff = 0\<rparr>"

definition netdev_alloc_skb :: "nat \<Rightarrow> gfar_private \<Rightarrow> sk_buff option \<times> gfar_private" where
  "netdev_alloc_skb sz priv =
     (case alloc_script priv of
        [] \<Rightarrow> (None, priv)
      | None # rest \<Rightarrow> (None, priv\<lparr>alloc_script := rest\<rparr>)
      | Some a # rest \<Rightarrow> (Some (fresh_skb a sz), priv\<lparr>alloc_script := rest\<rparr>))"

definition skb_queue_len :: "nat \<Rightarrow> gfar_private \<Rightarrow> nat" where
  "skb_queue_len q priv = length (skb_queue_mem priv q)"

definition skb_dequeue :: "nat \<Rightarrow> gfar_private \<Rightarrow> sk_buff option \<times> gfar_private" where
  "skb_dequeue q priv =
     (case skb_queue_mem priv q of
        [] \<Rightarrow> (None, priv)
      | skb # rest \<Rightarrow> (Some skb, priv\<lparr>skb_queue_mem := (skb_queue_mem priv)(q := rest)\<rparr>))"

definition skb_queue_head :: "nat \<Rightarrow> sk_buff \<Rightarrow> gfar_private \<Rightarrow> gfar_private" where
  "skb_queue_head q skb priv =
     priv\<lparr>skb_queue_mem := (skb_queue_mem priv)(q := skb # skb_queue_mem priv q)\<rparr>"

subsection \<open>The buffer recycler\<close>

definition gfar_align_skb :: "sk_buff \<Rightarrow> sk_buff" where
  "gfar_align_skb skb =
     skb_reserve (RXBUF_ALIGNMENT - (data skb mod RXBUF_ALIGNMENT)) skb"

text \<open>A step of the recycler, put on record.\<close>

definition recycle_log :: "recycle_event \<Rightarrow> gfar_private \<Rightarrow> gfar_private" where
  "recycle_log ev priv = priv\<lparr>recycle_trace := ev # recycle_trace priv\<rparr>"

definition gfar_alloc_skb :: "gfar_private \<Rightarrow> sk_buff option \<times> gfar_private" where
  "gfar_alloc_skb priv =
     (case netdev_alloc_skb (rx_buffer_size priv + RXBUF_ALIGNMENT)
             (recycle_log Ev_alloc priv) of
        (None, p) \<Rightarrow> (None, p)
      | (Some skb, p) \<Rightarrow> (Some (gfar_align_skb skb), p))"

definition gfar_skb_nonlinear_recycleable :: "sk_buff \<Rightarrow> nat \<Rightarrow> bool" where
  "gfar_skb_nonlinear_recycleable skb skb_size =
     (if \<not> skb_is_nonlinear skb then False
      else if truesize skb \<noteq> SKB_DATA_ALIGN (skb_size + NET_SKB_PAD) + sizeof_sk_buff
      then False
      else True)"

text \<open>The per-CPU part of the recycle context of the running processor, and its update.\<close>

definition this_cpu_local :: "gfar_private \<Rightarrow> gfar_recycle_cntxt_percpu" where
  "this_cpu_local priv = local_percpu (recycle priv) (cur_cpu priv)"

definition set_this_cpu_local ::
  "gfar_recycle_cntxt_percpu \<Rightarrow> gfar_private \<Rightarrow> gfar_private" where
  "set_this_cpu_local l priv =
     priv\<lparr>recycle := (recycle priv)
            \<lparr>local_percpu := (local_percpu (recycle priv))(cur_cpu priv := l)\<rparr>\<rparr>"

text \<open>
  \<^verbatim>\<open>gfar_free_skb\<close>. \<open>gfar_free_skb_enqueue\<close> is the second half of the C function, from
  \<^verbatim>\<open>skb_recycle(skb)\<close> on, which every buffer found fit for recycling reaches. The lock
  is taken only when the list of the processor is full; the pointer of the processor is
  stored after the lock is released. The references on the pages of dropped fragments
  (\<^verbatim>\<open>put_page\<close>) are not part of the state.
\<close>

definition gfar_free_skb_enqueue :: "sk_buff \<Rightarrow> gfar_private \<Rightarrow> gfar_private" where
  "gfar_free_skb_enqueue skb0 priv =
     (let skb = gfar_align_skb (skb_recycle skb0);
          local = this_cpu_local priv;
          rq = recycle_q local
      in
      if skb_queue_len rq priv < recycle_max (recycle priv) then
        skb_queue_head rq skb
          (recycle_log (Ev_queue_head rq)
             (set_this_cpu_local (local\<lparr>free_count := free_count local + 1\<rparr>) priv))
      else
        let p0 = recycle_log Ev_lock priv in
        (case global_recycle_q (recycle p0) of
           Some g \<Rightarrow>
             if skb_queue_len g p0 = 0 then
               let p1 = recycle_log (Ev_global_store rq)
                          (p0\<lparr>recycle := (recycle p0)
                               \<lparr>global_recycle_q := Some rq,
                                free_swap_count := free_swap_count (recycle p0) + 1\<rparr>\<rparr>);
                   p2 = recycle_log Ev_unlock p1;
                   p3 = recycle_log (Ev_local_store (cur_cpu p2) g)
                          (set_this_cpu_local
                             (local\<lparr>recycle_q := g, free_count := free_count local + 1\<rparr>) p2)
               in skb_queue_head g skb (recycle_log (Ev_queue_head g) p3)
             else dev_kfree_skb_any skb (recycle_log Ev_unlock p0)
         | None \<Rightarrow> dev_kfree_skb_any skb (recycle_log Ev_unlock p0)))"

definition gfar_free_skb :: "sk_buff \<Rightarrow> gfar_private \<Rightarrow> gfar_private" where
  "gfar_free_skb skb priv =
     (let skb_size = rx_buffer_size priv + RXBUF_ALIGNMENT in
      if \<not> skb_is_recycleable skb skb_size then
        if \<not> gfar_skb_nonlinear_recycleable skb skb_size then dev_kfree_skb_any skb priv
        else
          let skb1 = (if nr_frags skb \<noteq> 0 then skb\<lparr>frags := [], data_len := 0\<rparr> else skb)
          in if \<not> skb_is_recycleable skb1 skb_size then dev_kfree_skb_any skb1 priv
             else gfar_free_skb_enqueue skb1 priv
      else gfar_free_skb_enqueue skb priv)"

text \<open>
  \<^verbatim>\<open>gfar_new_skb\<close>; the result \<open>None\<close> is the C function's \<^verbatim>\<open>NULL\<close>. The list of the
  processor is read without the lock. When it is empty the lock is taken for the test of
  the global list and the store of the global pointer, and released before the pointer of
  the processor is stored, before the buffer is taken from the list acquired, and before
  the system allocator is called.
\<close>

definition gfar_new_skb :: "gfar_private \<Rightarrow> sk_buff option \<times> gfar_private" where
  "gfar_new_skb priv =
     (let local = this_cpu_local priv;
          rq = recycle_q local
      in
      case skb_dequeue rq (recycle_log (Ev_dequeue rq) priv) of
        (Some skb, p1) \<Rightarrow>
          (Some skb, set_this_cpu_local (local\<lparr>alloc_count := alloc_count local + 1\<rparr>) p1)
      | (None, p1) \<Rightarrow>
          let p2 = recycle_log Ev_lock p1 in
          (case global_recycle_q (recycle p2) of
             Some g \<Rightarrow>
               if skb_queue_len g p2 \<noteq> 0 then
                 let p3 = recycle_log (Ev_global_store rq)
                            (p2\<lparr>recycle := (recycle p2)
                                 \<lparr>global_recycle_q := Some rq,
                                  alloc_swap_count := alloc_swap_count (recycle p2) + 1\<rparr>\<rparr>);
                     p4 = recycle_log Ev_unlock p3;
                     p5 = recycle_log (Ev_local_store (cur_cpu p4) g)
                            (set_this_cpu_local
                               (local\<lparr>recycle_q := g, alloc_count := alloc_count local + 1\<rparr>)
                               p4)
                 in skb_dequeue g (recycle_log (Ev_dequeue g) p5)
               else gfar_alloc_skb (recycle_log Ev_unlock p2)
           | None \<Rightarrow> gfar_alloc_skb (recycle_log Ev_unlock p2)))"

subsection \<open>Descriptor rings\<close>

text \<open>
  Modelled from the spec: the platform's DMA mapping is not among the sources; the bus
  address of a buffer is its address. Unmapping has no effect on the state.
\<close>

definition dma_map_single :: "nat \<Rightarrow> u32" where
  "dma_map_single a = of_nat a"

text \<open>
  Modelled from the spec: \<^verbatim>\<open>next_bd\<close> and the ring masks are declared in gianfar.h, not among
  the sources. "Wrap arithmetic: \<open>next(index) = (index + 1) mod size\<close>, expressed via
  pointer/offset wraparound ... not a modulo" and ring sizes are powers of two.
\<close>

definition skip_bd :: "nat \<Rightarrow> nat \<Rightarrow> nat \<Rightarrow> nat" where
  "skip_bd bdp stride ring_size =
     (let new_bd = bdp + stride in if new_bd \<ge> ring_size then new_bd - ring_size else new_bd)"

definition next_bd :: "nat \<Rightarrow> nat \<Rightarrow> nat" where
  "next_bd bdp ring_size = skip_bd bdp 1 ring_size"

definition RX_RING_MOD_MASK :: "nat \<Rightarrow> nat" where
  "RX_RING_MOD_MASK ring_size = ring_size - 1"

definition TX_RING_MOD_MASK :: "nat \<Rightarrow> nat" where
  "TX_RING_MOD_MASK ring_size = ring_size - 1"

text \<open>\<^verbatim>\<open>skip_txbd\<close> and \<^verbatim>\<open>next_txbd\<close> of the source; the base pointer is offset 0.\<close>

definition skip_txbd :: "nat \<Rightarrow> nat \<Rightarrow> nat \<Rightarrow> nat" where
  "skip_txbd bdp stride ring_size =
     (let new_bd = bdp + stride in if new_bd \<ge> ring_size then new_bd - ring_size else new_bd)"

definition next_txbd :: "nat \<Rightarrow> nat \<Rightarrow> nat" where
  "next_txbd bdp ring_size = skip_txbd bdp 1 ring_size"

text \<open>A store to one part of a descriptor, and the stores to the rings of the device.\<close>

definition bd_store :: "bd_field \<Rightarrow> u32 \<Rightarrow> bd8 \<Rightarrow> bd8" where
  "bd_store f v bd =
     (case f of
        F_lstatus \<Rightarrow> bd\<lparr>lstatus := v\<rparr>
      | F_bufPtr \<Rightarrow> bd\<lparr>bufPtr := v\<rparr>
      | F_status \<Rightarrow> set_bd_status (ucast v) bd)"

definition rx_bd_write ::
  "nat \<Rightarrow> nat \<Rightarrow> bd_field \<Rightarrow> u32 \<Rightarrow> gfar_private \<Rightarrow> gfar_private" where
  "rx_bd_write q i f v priv =
     (let r = rx_queue priv ! q in
      priv\<lparr>rx_queue := (rx_queue priv)
              [q := r\<lparr>rx_bd_base := (rx_bd_base r)[i := bd_store f v (rx_bd_base r ! i)]\<rparr>],
           bd_trace := \<lparr>w_ring = RX_ring q, w_index = i, w_field = f, w_value = v\<rparr>
                        # bd_trace priv\<rparr>)"

definition tx_bd_write ::
  "nat \<Rightarrow> nat \<Rightarrow> bd_field \<Rightarrow> u32 \<Rightarrow> gfar_private \<Rightarrow> gfar_private" where
  "tx_bd_write q i f v priv =
     (let t = tx_queue priv ! q in
      priv\<lparr>tx_queue := (tx_queue priv)
              [q := t\<lparr>tx_bd_base := (tx_bd_base t)[i := bd_store f v (tx_bd_base t ! i)]\<rparr>],
           bd_trace := \<lparr>w_ring = TX_ring q, w_index = i, w_field = f, w_value = v\<rparr>
                        # bd_trace priv\<rparr>)"

definition rx_bd :: "gfar_private \<Rightarrow> nat \<Rightarrow> nat \<Rightarrow> rxbd8" where
  "rx_bd priv q i = rx_bd_base (rx_queue priv ! q) ! i"

definition tx_bd :: "gfar_private \<Rightarrow> nat \<Rightarrow> nat \<Rightarrow> txbd8" where
  "tx_bd priv q i = tx_bd_base (tx_queue priv ! q) ! i"

definition map_rxq ::
  "nat \<Rightarrow> (gfar_priv_rx_q \<Rightarrow> gfar_priv_rx_q) \<Rightarrow> gfar_private \<Rightarrow> gfar_private" where
  "map_rxq q f priv = priv\<lparr>rx_queue := (rx_queue priv)[q := f (rx_queue priv ! q)]\<rparr>"

definition map_txq ::
  "nat \<Rightarrow> (gfar_priv_tx_q \<Rightarrow> gfar_priv_tx_q) \<Rightarrow> gfar_private \<Rightarrow> gfar_private" where
  "map_txq q f priv = priv\<lparr>tx_queue := (tx_queue priv)[q := f (tx_queue priv ! q)]\<rparr>"

subsection \<open>Arming a receive descriptor\<close>

text \<open>
  \<^verbatim>\<open>gfar_init_rxbdp\<close>: the buffer address is stored first, the status word with the
  ownership flag after it. The descriptor \<open>bdp\<close> is the last of the ring when
  \<^verbatim>\<open>bdp == rx_bd_base + rx_ring_size - 1\<close>.
\<close>

definition gfar_init_rxbdp :: "nat \<Rightarrow> nat \<Rightarrow> u32 \<Rightarrow> gfar_private \<Rightarrow> gfar_private" where
  "gfar_init_rxbdp q bdp buf priv =
     (let p1 = rx_bd_write q bdp F_bufPtr buf priv;
          lstatus0 = BD_LFLAG (RXBD_EMPTY OR RXBD_INTERRUPT);
          lstatus1 = (if bdp + 1 = rx_ring_size (rx_queue p1 ! q)
                      then lstatus0 OR BD_LFLAG RXBD_WRAP else lstatus0)
      in rx_bd_write q bdp F_lstatus lstatus1 p1)"

definition gfar_new_rxbdp :: "nat \<Rightarrow> nat \<Rightarrow> sk_buff \<Rightarrow> gfar_private \<Rightarrow> gfar_private" where
  "gfar_new_rxbdp q bdp skb priv = gfar_init_rxbdp q bdp (dma_map_single (data skb)) priv"

subsection \<open>Receive cleanup\<close>

text \<open>\<^verbatim>\<open>gfar_is_vlan_on\<close> and \<^verbatim>\<open>gfar_uses_fcb\<close>, on the feature bits of the device.\<close>

definition gfar_is_vlan_on :: "gfar_private \<Rightarrow> bool" where
  "gfar_is_vlan_on priv = (feat_hw_vlan_rx priv \<or> feat_hw_vlan_tx priv)"

definition gfar_uses_fcb :: "gfar_private \<Rightarrow> bool" where
  "gfar_uses_fcb priv = (gfar_is_vlan_on priv \<or> feat_rxcsum priv \<or> has_timer priv)"

text \<open>
  \<^verbatim>\<open>gfar_rx_checksum\<close>: the packet needs no checksumming when the hardware verified both
  checksums; otherwise \<^verbatim>\<open>ip_summed\<close> is left as it is.
\<close>

definition gfar_rx_checksum :: "sk_buff \<Rightarrow> rxfcb \<Rightarrow> sk_buff" where
  "gfar_rx_checksum skb fcb =
     (if fcb_flags fcb AND RXFCB_CSUM_MASK = (RXFCB_CIP OR RXFCB_CTU)
      then skb\<lparr>ip_summed := CHECKSUM_UNNECESSARY\<rparr> else skb)"

text \<open>
  Modelled from the spec: \<^verbatim>\<open>eth_type_trans\<close>, \<^verbatim>\<open>skb_record_rx_queue\<close> and the VLAN tag
  helper are kernel code outside the sources. The packet handed upward has "any prepended
  metadata header" stripped and carries "checksum/VLAN result flags"; the Ethernet header
  is taken off the data and its protocol is returned.
\<close>

definition eth_type_trans :: "sk_buff \<Rightarrow> gfar_private \<Rightarrow> u16 \<times> sk_buff" where
  "eth_type_trans skb priv = (rx_eth_proto priv skb, skb_pull ETH_HLEN skb)"

definition skb_record_rx_queue :: "sk_buff \<Rightarrow> nat \<Rightarrow> sk_buff" where
  "skb_record_rx_queue skb rx_queue0 = skb\<lparr>queue_mapping := rx_queue0 + 1\<rparr>"

definition vlan_hwaccel_put_tag :: "sk_buff \<Rightarrow> u16 \<Rightarrow> sk_buff" where
  "vlan_hwaccel_put_tag skb vlctl = skb\<lparr>vlan_tag_present := True\<rparr>"

text \<open>
  \<^verbatim>\<open>gfar_process_frame\<close>: the frame control block is at the start of the data; it is read
  there, then it and the time stamp or the padding are taken off, the checksum verdict and
  the protocol are recorded, and the packet is handed to the stack. The value of the time
  stamp and of the VLAN tag are not part of the buffer model.
\<close>

definition gfar_process_frame :: "sk_buff \<Rightarrow> nat \<Rightarrow> gfar_private \<Rightarrow> gfar_private" where
  "gfar_process_frame skb0 amount_pull priv =
     (let fcb = rx_fcb priv skb0;
          skb1 = (if amount_pull \<noteq> 0
                  then skb_pull amount_pull (skb_record_rx_queue skb0 (fcb_rq fcb))
                  else skb0);
          skb2 = (if has_timer priv then skb_pull 8 skb1
                  else if padding priv \<noteq> 0 then skb_pull (padding priv) skb1 else skb1);
          skb3 = (if feat_rxcsum priv then gfar_rx_checksum skb2 fcb else skb2);
          skb4 = (case eth_type_trans skb3 priv of (proto, s) \<Rightarrow> s\<lparr>protocol := proto\<rparr>);
          skb5 = (if feat_hw_vlan_rx priv \<and> fcb_flags fcb AND RXFCB_VLN \<noteq> 0
                  then vlan_hwaccel_put_tag skb4 (fcb_vlctl fcb) else skb4);
          p1 = priv\<lparr>delivered := skb5 # delivered priv\<rparr>
      in if netif_rx_drops priv skb5
         then p1\<lparr>extra_stats := (extra_stats p1)
                   \<lparr>kernel_dropped := kernel_dropped (extra_stats p1) + 1\<rparr>\<rparr>
         else p1)"

text \<open>
  One turn of the loop of \<^verbatim>\<open>gfar_clean_rx_ring\<close> (from \<^verbatim>\<open>newskb = gfar_new_skb(dev)\<close> to the
  update of \<^verbatim>\<open>skb_currx\<close>), at descriptor \<open>bdp\<close> of queue \<open>q\<close>. The result is the number of
  packets counted (0 or 1) and the device; \<^verbatim>\<open>gfar_new_rxbdp\<close> dereferences the buffer it is
  given, and \<^verbatim>\<open>skb_put\<close> panics on a negative length.
\<close>

definition gfar_clean_rx_ring_step ::
  "nat \<Rightarrow> nat \<Rightarrow> gfar_private \<Rightarrow> fault + (nat \<times> gfar_private)" where
  "gfar_clean_rx_ring_step q bdp priv =
     (case gfar_new_skb priv of (newskb, p1) \<Rightarrow>
      let amount_pull = (if gfar_uses_fcb p1 then GMAC_FCB_LEN else 0);
          skb = rx_skbuff (rx_queue p1 ! q) ! skb_currx (rx_queue p1 ! q);
          p2 = (if bd_status (rx_bd p1 q bdp) AND RXBD_ERR = 0
                   \<and> unat (bd_length (rx_bd p1 q bdp)) > rx_buffer_size p1
                then rx_bd_write q bdp F_status (ucast RXBD_LARGE) p1 else p1);
          status = bd_status (rx_bd p2 q bdp)
      in
      (case
         (if newskb = None \<or> status AND RXBD_LAST = 0 \<or> status AND RXBD_ERR \<noteq> 0 then
            let p3 = count_errors status p2 in
            (case newskb of
               None \<Rightarrow> Inr (skb, 0, p3)
             | Some n \<Rightarrow>
                 (case skb of
                    Some s \<Rightarrow> Inr (Some n, 0, gfar_free_skb s p3)
                  | None \<Rightarrow> Inr (Some n, 0, p3)))
          else
            let p3 = map_rxq q (\<lambda>r. r\<lparr>rx_packets := rx_packets r + 1\<rparr>) p2 in
            (case skb of
               Some s \<Rightarrow>
                 if unat (bd_length (rx_bd p3 q bdp)) < ETH_FCS_LEN then Inl SkbOverPanic
                 else
                   let pkt_len = unat (bd_length (rx_bd p3 q bdp)) - ETH_FCS_LEN;
                       p4 = map_rxq q (\<lambda>r. r\<lparr>rx_bytes := rx_bytes r + of_nat pkt_len\<rparr>) p3
                   in Inr (newskb, 1,
                           gfar_process_frame
                             (skb_record_rx_queue (skb_put pkt_len s)
                                (rx_qindex (rx_queue p4 ! q)))
                             amount_pull p4)
             | None \<Rightarrow>
                 Inr (newskb, 1,
                      (map_rxq q (\<lambda>r. r\<lparr>rx_dropped := rx_dropped r + 1\<rparr>) p3)
                        \<lparr>extra_stats := (extra_stats p3)
                           \<lparr>rx_skbmissing := rx_skbmissing (extra_stats p3) + 1\<rparr>\<rparr>)))
       of
         Inl f \<Rightarrow> Inl f
       | Inr (newskb', howmany, p5) \<Rightarrow>
           let p6 = map_rxq q
                      (\<lambda>r. r\<lparr>rx_skbuff := (rx_skbuff r)[skb_currx r := newskb']\<rparr>) p5
           in
           (case newskb' of
              None \<Rightarrow> Inl NullPointer
            | Some n \<Rightarrow>
                Inr (howmany,
                     map_rxq q
                       (\<lambda>r. r\<lparr>skb_currx :=
                                 (skb_currx r + 1) AND RX_RING_MOD_MASK (rx_ring_size r)\<rparr>)
                       (gfar_new_rxbdp q bdp n p6)))))"

text \<open>
  The loop of \<^verbatim>\<open>gfar_clean_rx_ring\<close>: it stops at a descriptor the hardware still owns, or
  when the work limit, decremented before each turn, falls below zero. The result is the
  descriptor reached and the packets counted.
\<close>

function gfar_clean_rx_ring_loop ::
  "nat \<Rightarrow> nat \<Rightarrow> int \<Rightarrow> nat \<Rightarrow> gfar_private \<Rightarrow> fault + (nat \<times> nat \<times> gfar_private)" where
  "gfar_clean_rx_ring_loop q bdp rx_work_limit howmany priv =
     (if bd_status (rx_bd priv q bdp) AND RXBD_EMPTY \<noteq> 0 \<or> rx_work_limit - 1 < 0
      then Inr (bdp, howmany, priv)
      else
        (case gfar_clean_rx_ring_step q bdp priv of
           Inl f \<Rightarrow> Inl f
         | Inr (n, p) \<Rightarrow>
             gfar_clean_rx_ring_loop q (next_bd bdp (rx_ring_size (rx_queue p ! q)))
               (rx_work_limit - 1) (howmany + n) p))"
  by pat_completeness auto
termination
  by (relation "measure (\<lambda>(q, bdp, lim, howmany, priv). nat lim)") auto

declare gfar_clean_rx_ring_loop.simps [simp del]

definition gfar_clean_rx_ring :: "nat \<Rightarrow> int \<Rightarrow> gfar_private \<Rightarrow> fault + (nat \<times> gfar_private)" where
  "gfar_clean_rx_ring q rx_work_limit priv =
     (case gfar_clean_rx_ring_loop q (cur_rx (rx_queue priv ! q)) rx_work_limit 0 priv of
        Inl f \<Rightarrow> Inl f
      | Inr (bdp, howmany, p) \<Rightarrow> Inr (howmany, map_rxq q (\<lambda>r. r\<lparr>cur_rx := bdp\<rparr>) p))"

subsection \<open>Device registers\<close>

text \<open>
  Modelled from the spec: the register masks of gianfar.h and the behaviour of the device's
  registers are not among the sources. The event and status registers (\<open>ievent\<close>, \<open>rstat\<close>,
  \<open>tstat\<close>) are cleared by writing ones (the source writes them "to clear"); the mask and
  control registers hold what is written. A group "holds an interrupt-mask register value"
  with "receive/transmit interrupt bits".
\<close>

definition RSTAT_RXF_ALL_MASK :: u32 where "RSTAT_RXF_ALL_MASK = 0x000000FF"
definition RSTAT_RXF0_MASK :: u32 where "RSTAT_RXF0_MASK = 0x00000080"
definition RSTAT_CLEAR_RHALT :: u32 where "RSTAT_CLEAR_RHALT = 0x00800000"
definition TSTAT_CLEAR_THALT :: u32 where "TSTAT_CLEAR_THALT = 0x80000000"
definition IEVENT_RX_MASK :: u32 where "IEVENT_RX_MASK = 0x20008080"
definition IMASK_DEFAULT_RX :: u32 where "IMASK_DEFAULT_RX = 0x20000080"
definition IMASK_RX_DISABLED :: u32 where "IMASK_RX_DISABLED = NOT IMASK_DEFAULT_RX"
definition IMASK_INIT_CLEAR :: u32 where "IMASK_INIT_CLEAR = 0x00000000"
definition IEVENT_INIT_CLEAR :: u32 where "IEVENT_INIT_CLEAR = 0xffffffff"
definition IEVENT_GRSC :: u32 where "IEVENT_GRSC = 0x00000100"
definition IEVENT_GTSC :: u32 where "IEVENT_GTSC = 0x02000000"
definition DMACTRL_GRS :: u32 where "DMACTRL_GRS = 0x00000010"
definition DMACTRL_GTS :: u32 where "DMACTRL_GTS = 0x00000008"
definition MACCFG1_RX_EN :: u32 where "MACCFG1_RX_EN = 0x00000004"
definition MACCFG1_TX_EN :: u32 where "MACCFG1_TX_EN = 0x00000001"

definition write_one_to_clear :: "u32 \<Rightarrow> u32 \<Rightarrow> u32" where
  "write_one_to_clear v r = r AND NOT v"

definition map_grp ::
  "nat \<Rightarrow> (gfar_priv_grp \<Rightarrow> gfar_priv_grp) \<Rightarrow> gfar_private \<Rightarrow> gfar_private" where
  "map_grp g f priv = priv\<lparr>gfargrp := (gfargrp priv)[g := f (gfargrp priv ! g)]\<rparr>"

definition map_regs :: "(gfar_regs \<Rightarrow> gfar_regs) \<Rightarrow> gfar_priv_grp \<Rightarrow> gfar_priv_grp" where
  "map_regs f grp = grp\<lparr>regs := f (regs grp)\<rparr>"

subsection \<open>The receive poll handler\<close>

text \<open>C's division of integers truncates towards zero.\<close>

definition c_int_div :: "int \<Rightarrow> int \<Rightarrow> int" where
  "c_int_div a b = sgn a * sgn b * (\<bar>a\<bar> div \<bar>b\<bar>)"

text \<open>
  The loop \<^verbatim>\<open>while (rstat_local) { num_act_qs++; rstat_local &= (rstat_local - 1); }\<close>.
\<close>

function count_act_qs :: "u32 \<Rightarrow> int \<Rightarrow> int" where
  "count_act_qs rstat_local num_act_qs =
     (if rstat_local \<noteq> 0
      then count_act_qs (rstat_local AND (rstat_local - 1)) (num_act_qs + 1)
      else num_act_qs)"
  by pat_completeness auto
termination
proof (relation "measure (\<lambda>(w, n). unat w)")
  fix rstat_local :: u32 and num_act_qs :: int
  assume "rstat_local \<noteq> 0"
  then have "rstat_local AND (rstat_local - 1) < rstat_local"
    using less_eq_dec_iff word_and_le1 by blast
  then show "((rstat_local AND (rstat_local - 1), num_act_qs + 1), (rstat_local, num_act_qs))
      \<in> measure (\<lambda>(w, n). unat w)"
    by (simp add: word_less_nat_alt)
qed simp

declare count_act_qs.simps [simp del]

text \<open>
  The opening of \<^verbatim>\<open>gfar_poll_rx\<close>, up to \<^verbatim>\<open>budget_per_queue = budget/num_act_qs\<close>: the pending
  bits and the budget of each queue. The division has no guard.
\<close>

definition gfar_poll_rx_budget :: "gfar_priv_grp \<Rightarrow> int \<Rightarrow> fault + (u32 \<times> int)" where
  "gfar_poll_rx_budget gfargrp0 budget =
     (let rstat0 = rstat (regs gfargrp0);
          rstat_rxf = (rstat0 AND RSTAT_RXF_ALL_MASK) OR rstat_prev gfargrp0;
          num_act_qs = count_act_qs rstat_rxf 0
      in if num_act_qs = 0 then Inl DivideByZero
         else Inr (rstat_rxf, c_int_div budget num_act_qs))"

text \<open>
  The loop \<^verbatim>\<open>for_each_set_bit(i, &gfargrp->rx_bit_map, priv->num_rx_queues)\<close> over the queues
  \<open>i\<close> given; the state of the loop is \<^verbatim>\<open>napi_done\<close>, \<^verbatim>\<open>rstat_rhalt\<close>, \<^verbatim>\<open>rx_cleaned\<close> and the
  device.
\<close>

fun gfar_poll_rx_queues ::
  "nat \<Rightarrow> u32 \<Rightarrow> int \<Rightarrow> nat list \<Rightarrow> bool \<times> u32 \<times> int \<times> gfar_private
     \<Rightarrow> fault + (bool \<times> u32 \<times> int \<times> gfar_private)" where
  "gfar_poll_rx_queues g rstat_rxf budget_per_queue [] acc = Inr acc"
| "gfar_poll_rx_queues g rstat_rxf budget_per_queue (i # rest)
       (napi_done, rstat_rhalt, rx_cleaned, priv) =
     (let mask = drop_bit i RSTAT_RXF0_MASK in
      if rstat_rxf AND mask \<noteq> 0 then
        (case gfar_clean_rx_ring i budget_per_queue priv of
           Inl f \<Rightarrow> Inl f
         | Inr (rx_cleaned_per_queue, p) \<Rightarrow>
             if int rx_cleaned_per_queue \<ge> budget_per_queue then
               gfar_poll_rx_queues g rstat_rxf budget_per_queue rest
                 (False, rstat_rhalt, rx_cleaned + int rx_cleaned_per_queue, p)
             else
               gfar_poll_rx_queues g rstat_rxf budget_per_queue rest
                 (napi_done, rstat_rhalt OR drop_bit i RSTAT_CLEAR_RHALT,
                  rx_cleaned + int rx_cleaned_per_queue,
                  map_grp g (\<lambda>gr. gr\<lparr>rstat_prev := rstat_prev gr AND NOT mask\<rparr>) p))
      else
        gfar_poll_rx_queues g rstat_rxf budget_per_queue rest
          (napi_done, rstat_rhalt, rx_cleaned, priv))"

text \<open>
  \<^verbatim>\<open>gfar_poll_rx\<close> for the group \<open>g\<close>; the result is \<^verbatim>\<open>rx_cleaned\<close>. The coalescing registers
  are not part of the state.
\<close>

definition gfar_poll_rx :: "nat \<Rightarrow> int \<Rightarrow> gfar_private \<Rightarrow> fault + (int \<times> gfar_private)" where
  "gfar_poll_rx g budget priv =
     (case gfar_poll_rx_budget (gfargrp priv ! g) budget of
        Inl f \<Rightarrow> Inl f
      | Inr (rstat_rxf, budget_per_queue) \<Rightarrow>
          let p1 = map_grp g
                     (\<lambda>gr. (map_regs
                              (\<lambda>r. r\<lparr>rstat := write_one_to_clear rstat_rxf (rstat r),
                                      ievent := write_one_to_clear IEVENT_RX_MASK (ievent r)\<rparr>)
                              gr)\<lparr>rstat_prev := rstat_rxf\<rparr>) priv;
              queues = filter (bit (rx_bit_map (gfargrp p1 ! g))) [0..<length (rx_queue p1)]
          in
          (case gfar_poll_rx_queues g rstat_rxf budget_per_queue queues (True, 0, 0, p1) of
             Inl f \<Rightarrow> Inl f
           | Inr (napi_done, rstat_rhalt, rx_cleaned, p2) \<Rightarrow>
               let p3 = (if rstat_rhalt \<noteq> 0
                         then map_grp g
                                (map_regs (\<lambda>r. r\<lparr>rstat :=
                                    write_one_to_clear rstat_rhalt (rstat r)\<rparr>)) p2
                         else p2)
               in
               if napi_done then
                 let p4 = map_grp g
                            (\<lambda>gr. (map_regs (\<lambda>r. r\<lparr>imask := imask r OR IMASK_DEFAULT_RX\<rparr>) gr)
                                     \<lparr>napi_rx_scheduled := False\<rparr>) p3;
                     ievent0 = ievent (regs (gfargrp p4 ! g)) AND IEVENT_RX_MASK
                 in
                 if ievent0 \<noteq> 0 then
                   Inr (rx_cleaned,
                        map_grp g
                          (\<lambda>gr. (map_regs
                                   (\<lambda>r. r\<lparr>imask := imask r AND IMASK_RX_DISABLED,
                                           ievent := write_one_to_clear IEVENT_RX_MASK
                                                       (ievent r)\<rparr>) gr)
                                   \<lparr>napi_rx_scheduled := True\<rparr>) p4)
                 else Inr (rx_cleaned, p4)
               else Inr (rx_cleaned, p3)))"

subsection \<open>Transmit submission\<close>

text \<open>
  Modelled from the spec: the stack's queue control, the checksum helper and the headroom
  reallocation of the kernel are not among the sources. A queue is "marked stopped" and
  later "unstopped"; a packet whose metadata header "cannot fit in the packet's existing
  headroom" gets a copy with more headroom from the system allocator, which may fail.
\<close>

definition netif_tx_stop_queue :: "nat \<Rightarrow> gfar_private \<Rightarrow> gfar_private" where
  "netif_tx_stop_queue q priv = map_txq q (\<lambda>t. t\<lparr>tx_stopped := True\<rparr>) priv"

definition netif_wake_subqueue :: "nat \<Rightarrow> gfar_private \<Rightarrow> gfar_private" where
  "netif_wake_subqueue q priv = map_txq q (\<lambda>t. t\<lparr>tx_stopped := False\<rparr>) priv"

definition skb_checksum_help :: "sk_buff \<Rightarrow> gfar_private \<Rightarrow> int \<times> sk_buff" where
  "skb_checksum_help skb priv =
     (if skb_checksum_help_ret priv skb = 0 then (0, skb\<lparr>ip_summed := CHECKSUM_NONE\<rparr>)
      else (skb_checksum_help_ret priv skb, skb))"

definition skb_realloc_headroom ::
  "sk_buff \<Rightarrow> nat \<Rightarrow> gfar_private \<Rightarrow> sk_buff option \<times> gfar_private" where
  "skb_realloc_headroom skb headroom priv =
     (case alloc_script priv of
        [] \<Rightarrow> (None, priv)
      | None # rest \<Rightarrow> (None, priv\<lparr>alloc_script := rest\<rparr>)
      | Some a # rest \<Rightarrow>
          (Some (skb\<lparr>head := a,
                     data := a + skb_headroom skb
                               + SKB_DATA_ALIGN (headroom - skb_headroom skb),
                     end_off := end_off skb + SKB_DATA_ALIGN (headroom - skb_headroom skb),
                     users := 1, cloned := False\<rparr>),
           priv\<lparr>alloc_script := rest\<rparr>))"

definition dma_map_page :: "nat \<Rightarrow> nat \<Rightarrow> u32" where
  "dma_map_page pg off = of_nat (pg + off)"

text \<open>\<^verbatim>\<open>gfar_add_fcb\<close>: room for the frame control block in front of the data.\<close>

definition gfar_add_fcb :: "sk_buff \<Rightarrow> sk_buff" where
  "gfar_add_fcb skb = skb_push GMAC_FCB_LEN skb"

text \<open>
  The opening of \<^verbatim>\<open>gfar_start_xmit\<close>, up to the test for segmentation: the checksum
  workaround of erratum 76, the time stamp decision and the headroom for the frame control
  block. It ends the call (\<open>Inl\<close>, with the value returned) or goes on with the packet,
  which may be a copy, and \<^verbatim>\<open>do_tstamp\<close>.
\<close>

definition gfar_start_xmit_prepare ::
  "sk_buff \<Rightarrow> gfar_private \<Rightarrow> (int \<times> gfar_private) + (sk_buff \<times> bool \<times> gfar_private)" where
  "gfar_start_xmit_prepare skb0 priv =
     (case (if errata_76 priv \<and> ip_summed skb0 = CHECKSUM_PARTIAL \<and> len skb0 > 2500
            then skb_checksum_help skb0 priv else (0, skb0)) of
        (ret, skb) \<Rightarrow>
          if ret \<noteq> 0 then Inl (ret, priv)
          else
            let do_tstamp = ((tx_flags skb AND SKBTX_HW_TSTAMP \<noteq> 0 \<and> hwts_tx_en priv)
                             \<or> hwts_tx_en_ioctl priv)
            in
            if (ip_summed skb = CHECKSUM_PARTIAL \<or> vlan_tag_present skb \<or> do_tstamp)
               \<and> skb_headroom skb < GMAC_FCB_LEN
            then
              (case skb_realloc_headroom skb GMAC_FCB_LEN priv of
                 (None, p1) \<Rightarrow>
                   Inl (NETDEV_TX_OK,
                        dev_kfree_skb_any skb
                          (p1\<lparr>stats := (stats p1)\<lparr>tx_errors := tx_errors (stats p1) + 1\<rparr>\<rparr>))
               | (Some skb_new, p1) \<Rightarrow> Inr (skb_new, do_tstamp, dev_kfree_skb_any skb p1))
            else Inr (skb, do_tstamp, priv))"

text \<open>
  The loop over the fragments: each fragment goes to the next descriptor, its buffer pointer
  stored before its status word; the last fragment is the one after which none is left.
  The result is the descriptor of the last fragment.
\<close>

fun gfar_start_xmit_frags ::
  "nat \<Rightarrow> nat \<Rightarrow> skb_frag list \<Rightarrow> gfar_private \<Rightarrow> nat \<times> gfar_private" where
  "gfar_start_xmit_frags rq txbdp [] priv = (txbdp, priv)"
| "gfar_start_xmit_frags rq txbdp (frag # rest) priv =
     (let txbdp1 = next_txbd txbdp (tx_ring_size (tx_queue priv ! rq));
          lstatus0 = lstatus (tx_bd priv rq txbdp1) OR of_nat (frag_size frag)
                       OR BD_LFLAG TXBD_READY;
          lstatus1 = (if rest = [] then lstatus0 OR BD_LFLAG (TXBD_LAST OR TXBD_INTERRUPT)
                      else lstatus0);
          bufaddr = dma_map_page (page frag) (page_offset frag);
          p1 = tx_bd_write rq txbdp1 F_bufPtr bufaddr priv;
          p2 = tx_bd_write rq txbdp1 F_lstatus lstatus1 p1
      in gfar_start_xmit_frags rq txbdp1 rest p2)"

text \<open>
  The rest of \<^verbatim>\<open>gfar_start_xmit\<close> for a packet that is not segmented, in the order of the
  source and in four parts. The contents of the frame control block and the \<open>dfvlan\<close>
  register are not part of the state.

  First, the descriptors after the first one: \<^verbatim>\<open>txbdp\<close> starts at \<^verbatim>\<open>cur_tx\<close> (one further with a
  time stamp); a packet without fragments gets its LAST and INTERRUPT flags (in the local
  \<^verbatim>\<open>lstatus\<close>, or stored to the time stamp descriptor), a packet with fragments gets them
  in the loop. The result is the last descriptor, the local \<^verbatim>\<open>lstatus\<close> and the state.
\<close>

definition gfar_start_xmit_map ::
  "nat \<Rightarrow> sk_buff \<Rightarrow> bool \<Rightarrow> gfar_private \<Rightarrow> nat \<times> u32 \<times> gfar_private" where
  "gfar_start_xmit_map rq skb0 do_tstamp p1 =
     (let ring_size = tx_ring_size (tx_queue p1 ! rq);
          txbdp_start = cur_tx (tx_queue p1 ! rq);
          lstatus0 = lstatus (tx_bd p1 rq txbdp_start);
          txbdp_tstamp = next_txbd txbdp_start ring_size;
          txbdp0 = (if do_tstamp then txbdp_tstamp else txbdp_start)
      in
      if nr_frags skb0 = 0 then
        (if do_tstamp then
           (txbdp0, lstatus0,
            tx_bd_write rq txbdp_tstamp F_lstatus
              (lstatus (tx_bd p1 rq txbdp_tstamp)
                 OR BD_LFLAG (TXBD_LAST OR TXBD_INTERRUPT)) p1)
         else (txbdp0, lstatus0 OR BD_LFLAG (TXBD_LAST OR TXBD_INTERRUPT), p1))
      else
        (case gfar_start_xmit_frags rq txbdp0 (frags skb0) p1 of
           (txbdp, p) \<Rightarrow> (txbdp, lstatus (tx_bd p rq txbdp_start), p)))"

text \<open>
  Second, the frame control block: for checksum offload (with the workaround of erratum
  12), for a VLAN tag and for a time stamp. The result is the packet and the local
  \<^verbatim>\<open>lstatus\<close>.
\<close>

definition gfar_start_xmit_fcb ::
  "sk_buff \<Rightarrow> bool \<Rightarrow> u32 \<Rightarrow> gfar_private \<Rightarrow> sk_buff \<times> u32" where
  "gfar_start_xmit_fcb skb0 do_tstamp lstatus1 p2 =
     (case
        (if ip_summed skb0 = CHECKSUM_PARTIAL then
           let skbf = gfar_add_fcb skb0 in
           if errata_12 p2 \<and> data skbf mod 32 > 24
           then (snd (skb_checksum_help (skb_pull_unchecked GMAC_FCB_LEN skbf) p2),
                 True, lstatus1)
           else (skbf, True, lstatus1 OR BD_LFLAG TXBD_TOE)
         else (skb0, False, lstatus1))
      of (skb1, fcb1, lstatus2) \<Rightarrow>
        (case
           (if vlan_tag_present skb1 \<and> \<not> fcb1
            then (gfar_add_fcb skb1, True, lstatus2 OR BD_LFLAG TXBD_TOE)
            else (skb1, fcb1, lstatus2))
         of (skb2, fcb2, lstatus3) \<Rightarrow>
           (if do_tstamp
            then ((if fcb2 then skb2 else gfar_add_fcb skb2)
                    \<lparr>tx_flags := tx_flags skb2 OR SKBTX_IN_PROGRESS\<rparr>,
                  lstatus3 OR BD_LFLAG TXBD_TOE)
            else (skb2, lstatus3))))"

text \<open>
  Third, the stores that hand the frame to the hardware: the buffer pointer of the first
  descriptor, the time stamp descriptor if there is one, and last the status word of the
  first descriptor with its READY flag.
\<close>

definition gfar_start_xmit_ready ::
  "nat \<Rightarrow> sk_buff \<Rightarrow> bool \<Rightarrow> u32 \<Rightarrow> gfar_private \<Rightarrow> gfar_private" where
  "gfar_start_xmit_ready rq skb3 do_tstamp lstatus4 p2 =
     (let txbdp_start = cur_tx (tx_queue p2 ! rq);
          txbdp_tstamp = next_txbd txbdp_start (tx_ring_size (tx_queue p2 ! rq));
          p3 = tx_bd_write rq txbdp_start F_bufPtr (dma_map_single (data skb3)) p2;
          p4 = (if do_tstamp then
                  tx_bd_write rq txbdp_tstamp F_lstatus
                    (lstatus (tx_bd p3 rq txbdp_tstamp) OR BD_LFLAG TXBD_READY
                       OR (of_nat (skb_headlen skb3) - of_nat GMAC_FCB_LEN))
                    (tx_bd_write rq txbdp_tstamp F_bufPtr
                       (bufPtr (tx_bd p3 rq txbdp_start) + of_nat GMAC_FCB_LEN) p3)
                else p3);
          lstatus5 = (if do_tstamp
                      then lstatus4 OR BD_LFLAG (TXBD_CRC OR TXBD_READY)
                             OR of_nat GMAC_FCB_LEN
                      else lstatus4 OR BD_LFLAG (TXBD_CRC OR TXBD_READY)
                             OR of_nat (skb_headlen skb3))
      in tx_bd_write rq txbdp_start F_lstatus lstatus5 p4)"

text \<open>
  Fourth, the bookkeeping: the slot of the packet, the cursors, the count of free
  descriptors, the stop of a queue that is now full, and the restart of the transmitter.
\<close>

definition gfar_start_xmit_commit ::
  "nat \<Rightarrow> sk_buff \<Rightarrow> nat \<Rightarrow> nat \<Rightarrow> gfar_private \<Rightarrow> gfar_private" where
  "gfar_start_xmit_commit rq skb3 txbdp nr_txbds p5 =
     (let p6 = map_txq rq
                 (\<lambda>t. t\<lparr>tx_skbuff := (tx_skbuff t)[skb_curtx t := Some skb3],
                         skb_curtx := (skb_curtx t + 1)
                                        AND TX_RING_MOD_MASK (tx_ring_size t),
                         cur_tx := next_txbd txbdp (tx_ring_size t),
                         num_txbdfree := num_txbdfree t - nr_txbds\<rparr>) p5;
          p7 = (if num_txbdfree (tx_queue p6 ! rq) = 0 then
                  (netif_tx_stop_queue rq p6)
                    \<lparr>stats := (stats p6)
                       \<lparr>tx_fifo_errors := tx_fifo_errors (stats p6) + 1\<rparr>\<rparr>
                else p6)
      in map_grp (tx_grp (tx_queue p7 ! rq))
           (map_regs (\<lambda>r. r\<lparr>tstat := write_one_to_clear
              (drop_bit (tx_qindex (tx_queue p7 ! rq)) TSTAT_CLEAR_THALT)
              (tstat r)\<rparr>)) p7)"

text \<open>
  The whole: the count of the descriptors, the test for space, the statistics of the queue
  and the four parts.
\<close>

definition gfar_start_xmit_frame ::
  "sk_buff \<Rightarrow> bool \<Rightarrow> gfar_private \<Rightarrow> int \<times> gfar_private" where
  "gfar_start_xmit_frame skb0 do_tstamp priv =
     (let rq = queue_mapping skb0;
          nr_txbds = (if do_tstamp then nr_frags skb0 + 2 else nr_frags skb0 + 1)
      in
      if nr_txbds > num_txbdfree (tx_queue priv ! rq) then
        (NETDEV_TX_BUSY,
         (netif_tx_stop_queue rq priv)
           \<lparr>stats := (stats priv)\<lparr>tx_fifo_errors := tx_fifo_errors (stats priv) + 1\<rparr>\<rparr>)
      else
        let p1 = map_txq rq (\<lambda>t. t\<lparr>tx_bytes := tx_bytes t + of_nat (len skb0),
                                     tx_packets := tx_packets t + 1\<rparr>) priv
        in
        (case gfar_start_xmit_map rq skb0 do_tstamp p1 of
           (txbdp, lstatus1, p2) \<Rightarrow>
             (case gfar_start_xmit_fcb skb0 do_tstamp lstatus1 p2 of
                (skb3, lstatus4) \<Rightarrow>
                  (NETDEV_TX_OK,
                   gfar_start_xmit_commit rq skb3 txbdp nr_txbds
                     (gfar_start_xmit_ready rq skb3 do_tstamp lstatus4 p2)))))"

subsection \<open>Software segmentation\<close>

type_synonym xmit_result = "fault + (int \<times> gfar_private)"

text \<open>
  The inner loop of \<^verbatim>\<open>gfar_tso\<close> that moves page fragments to a segment: from the
  fragments not yet consumed, the position \<open>pos\<close> of the first of them in the packet, and
  the bytes \<open>offset .. offset + len\<close> of the segment, it gives the fragments of the segment,
  the number of fragments consumed (the increase of \<open>i\<close>) and the new \<open>pos\<close>.
\<close>

fun gfar_tso_frags ::
  "skb_frag list \<Rightarrow> nat \<Rightarrow> nat \<Rightarrow> nat \<Rightarrow> skb_frag list \<times> nat \<times> nat" where
  "gfar_tso_frags [] pos offset seg_len = ([], 0, pos)"
| "gfar_tso_frags (f # fs) pos offset seg_len =
     (if pos < offset + seg_len then
        let sz = frag_size f;
            f1 = (if pos < offset
                  then f\<lparr>page_offset := page_offset f + (offset - pos),
                         frag_size := frag_size f - (offset - pos)\<rparr>
                  else f)
        in if pos + sz \<le> offset + seg_len then
             (case gfar_tso_frags fs (pos + sz) offset seg_len of
                (built, n, pos') \<Rightarrow> (f1 # built, Suc n, pos'))
           else ([f1\<lparr>frag_size := frag_size f1 - (pos + sz - (offset + seg_len))\<rparr>], 0, pos)
      else ([], 0, pos))"

text \<open>
  The headers of the packet end at \<open>doffset\<close>; \<open>hsize\<close> is what the linear part holds beyond
  them. (The source finds \<open>doffset\<close> by pulling the three headers off the packet and
  pushing them back, which leaves the packet as it was.)
\<close>

definition tso_doffset :: "sk_buff \<Rightarrow> nat" where
  "tso_doffset skb = mac_len skb + iph_ihl skb * 4 + th_doff skb * 4"

definition tso_hsize :: "sk_buff \<Rightarrow> nat" where
  "tso_hsize skb = skb_headlen skb - tso_doffset skb"

text \<open>
  One segment: the buffer \<open>nskb0\<close> from the pool gets the headers and the linear rest, the
  fragments \<open>built\<close> and the lengths. The header bytes themselves (sequence number,
  identification, checksums) are not part of the buffer model. Buffers of the pool carry no
  fragments.
\<close>

definition gfar_tso_segment ::
  "sk_buff \<Rightarrow> sk_buff \<Rightarrow> nat \<Rightarrow> skb_frag list \<Rightarrow> sk_buff" where
  "gfar_tso_segment skb nskb0 seg_len built =
     (let n1 = skb_put (tso_doffset skb + tso_hsize skb) (skb_reserve (skb_headroom skb) nskb0);
          dl = (seg_len + 2 ^ 32 - tso_hsize skb) mod 2 ^ 32
      in n1\<lparr>ip_summed := ip_summed skb, vlan_tag_present := vlan_tag_present skb,
            mac_len := mac_len skb, iph_ihl := iph_ihl skb, th_doff := th_doff skb,
            frags := built @ frags n1, data_len := dl, len := len n1 + dl\<rparr>)"

text \<open>
  One turn of the loop \<^verbatim>\<open>do { ... } while ((offset += len) < skb->len)\<close> of \<^verbatim>\<open>gfar_tso\<close>,
  with the state \<open>i\<close>, \<open>pos\<close>, \<open>offset\<close>; \<open>xmit\<close> is the submission of one segment. The turn
  ends the function (\<open>Inl\<close>, with the value returned) or leaves the state for the next turn.
  The buffer from the pool is dereferenced unchecked.
\<close>

definition gfar_tso_turn ::
  "(sk_buff \<Rightarrow> gfar_private \<Rightarrow> xmit_result) \<Rightarrow> sk_buff \<Rightarrow> nat \<Rightarrow> nat \<Rightarrow> nat
     \<Rightarrow> gfar_private
     \<Rightarrow> fault + ((int \<times> gfar_private) + (nat \<times> nat \<times> nat \<times> gfar_private))" where
  "gfar_tso_turn xmit skb i pos offset priv =
     (let len0 = (len skb + 2 ^ 32 - offset) mod 2 ^ 32;
          seg_len = (if len0 > gso_size skb then gso_size skb else len0)
      in
      (case gfar_new_skb priv of
         (None, p1) \<Rightarrow> Inl NullPointer
       | (Some nskb0, p1) \<Rightarrow>
           (case gfar_tso_frags (drop i (frags skb)) pos offset seg_len of
              (built, consumed, pos') \<Rightarrow>
                let nskb = gfar_tso_segment skb nskb0 seg_len built in
                (case xmit nskb p1 of
                   Inl f \<Rightarrow> Inl f
                 | Inr (ret, p2) \<Rightarrow>
                     if ret \<noteq> 0 then
                       Inr (Inl (NETDEV_TX_OK,
                                 dev_kfree_skb_any skb (dev_kfree_skb_any nskb p2)))
                     else if offset + seg_len < len skb then
                       Inr (Inr (i + consumed, pos', offset + seg_len, p2))
                     else Inr (Inl (ret, gfar_free_skb skb p2))))))"

text \<open>The loop; the first argument bounds the number of turns.\<close>

fun gfar_tso_loop ::
  "nat \<Rightarrow> (sk_buff \<Rightarrow> gfar_private \<Rightarrow> xmit_result) \<Rightarrow> sk_buff \<Rightarrow> nat \<Rightarrow> nat \<Rightarrow> nat
     \<Rightarrow> gfar_private \<Rightarrow> xmit_result" where
  "gfar_tso_loop 0 xmit skb i pos offset priv = Inl OutOfFuel"
| "gfar_tso_loop (Suc n) xmit skb i pos offset priv =
     (case gfar_tso_turn xmit skb i pos offset priv of
        Inl f \<Rightarrow> Inl f
      | Inr (Inl r) \<Rightarrow> Inr r
      | Inr (Inr (i', pos', offset', p')) \<Rightarrow> gfar_tso_loop n xmit skb i' pos' offset' p')"

definition gfar_tso ::
  "nat \<Rightarrow> (sk_buff \<Rightarrow> gfar_private \<Rightarrow> xmit_result) \<Rightarrow> sk_buff \<Rightarrow> nat \<Rightarrow> gfar_private
     \<Rightarrow> xmit_result" where
  "gfar_tso fuel xmit skb rq priv =
     gfar_tso_loop fuel xmit skb 0 (skb_headlen skb) (tso_doffset skb) priv"

text \<open>
  \<^verbatim>\<open>gfar_start_xmit\<close>. The C function calls \<^verbatim>\<open>gfar_tso\<close>, which calls it back for each
  segment; the number bounds the depth of this nesting and the segments of one packet, and
  a call that needs more answers \<open>OutOfFuel\<close>. A packet that is not segmented needs none.
\<close>

definition gfar_start_xmit_with ::
  "(sk_buff \<Rightarrow> nat \<Rightarrow> gfar_private \<Rightarrow> xmit_result) \<Rightarrow> sk_buff \<Rightarrow> gfar_private
     \<Rightarrow> xmit_result" where
  "gfar_start_xmit_with tso skb priv =
     (case gfar_start_xmit_prepare skb priv of
        Inl r \<Rightarrow> Inr r
      | Inr (skb1, do_tstamp, p1) \<Rightarrow>
          if skb_is_gso skb1 \<and> \<not> do_tstamp then tso skb1 (queue_mapping skb) p1
          else Inr (gfar_start_xmit_frame skb1 do_tstamp p1))"

primrec gfar_start_xmit :: "nat \<Rightarrow> sk_buff \<Rightarrow> gfar_private \<Rightarrow> xmit_result" where
  "gfar_start_xmit 0 = gfar_start_xmit_with (\<lambda>skb rq priv. Inl OutOfFuel)"
| "gfar_start_xmit (Suc n) = gfar_start_xmit_with (gfar_tso (Suc n) (gfar_start_xmit n))"

subsection \<open>Transmit cleanup\<close>

text \<open>
  The loop of \<^verbatim>\<open>gfar_clean_tx_ring\<close> with its state \<open>bdp\<close>, \<open>skb_dirtytx\<close>, \<open>tx_work_limit\<close>
  and \<open>howmany\<close>. It ends at an empty slot, at a spent work limit or at a frame whose last
  descriptor the hardware still owns. Each descriptor of a cleaned frame keeps only its
  WRAP flag. The time stamp handed back to the stack is not part of the state. A slot index
  beyond the array is a read out of bounds.
\<close>

fun gfar_clean_tx_frags :: "nat \<Rightarrow> nat \<Rightarrow> nat \<Rightarrow> gfar_private \<Rightarrow> nat \<times> gfar_private" where
  "gfar_clean_tx_frags q bdp 0 priv = (bdp, priv)"
| "gfar_clean_tx_frags q bdp (Suc n) priv =
     gfar_clean_tx_frags q (next_txbd bdp (tx_ring_size (tx_queue priv ! q))) n
       (tx_bd_write q bdp F_lstatus
          (lstatus (tx_bd priv q bdp) AND BD_LFLAG TXBD_WRAP) priv)"

definition tx_in_flight :: "gfar_private \<Rightarrow> nat \<Rightarrow> nat" where
  "tx_in_flight priv q = length (filter (\<lambda>x. x \<noteq> None) (tx_skbuff (tx_queue priv ! q)))"

function gfar_clean_tx_ring_loop ::
  "nat \<Rightarrow> nat \<Rightarrow> nat \<Rightarrow> int \<Rightarrow> nat \<Rightarrow> gfar_private
     \<Rightarrow> fault + (nat \<times> nat \<times> nat \<times> gfar_private)" where
  "gfar_clean_tx_ring_loop q bdp skb_dirtytx0 tx_work_limit howmany priv =
     (if skb_dirtytx0 \<ge> length (tx_skbuff (tx_queue priv ! q)) then Inl OutOfBounds
      else
        (case tx_skbuff (tx_queue priv ! q) ! skb_dirtytx0 of
           None \<Rightarrow> Inr (bdp, skb_dirtytx0, howmany, priv)
         | Some skb \<Rightarrow>
             if tx_work_limit = 0 then Inr (bdp, skb_dirtytx0, howmany, priv)
             else
               let tx_ring_size0 = tx_ring_size (tx_queue priv ! q);
                   in_progress = (tx_flags skb AND SKBTX_IN_PROGRESS \<noteq> 0);
                   nr_txbds = (if in_progress then nr_frags skb + 2 else nr_frags skb + 1);
                   lbdp = skip_txbd bdp (nr_txbds - 1) tx_ring_size0;
                   lstatus0 = lstatus (tx_bd priv q lbdp)
               in
               if lstatus0 AND BD_LFLAG TXBD_READY \<noteq> 0 \<and> lstatus0 AND BD_LENGTH_MASK \<noteq> 0
               then Inr (bdp, skb_dirtytx0, howmany, priv)
               else
                 let p1 = (if in_progress
                           then tx_bd_write q bdp F_lstatus
                                  (lstatus (tx_bd priv q bdp) AND BD_LFLAG TXBD_WRAP) priv
                           else priv);
                     bdp1 = (if in_progress then next_txbd bdp tx_ring_size0 else bdp);
                     skb1 = (if in_progress then skb_pull GMAC_FCB_LEN skb else skb);
                     p2 = tx_bd_write q bdp1 F_lstatus
                            (lstatus (tx_bd p1 q bdp1) AND BD_LFLAG TXBD_WRAP) p1
                 in
                 (case gfar_clean_tx_frags q (next_txbd bdp1 tx_ring_size0) (nr_frags skb) p2 of
                    (bdp2, p3) \<Rightarrow>
                      let p4 = (if \<not> tcp_ack_recycles p3 skb1 then gfar_free_skb skb1 p3
                                else p3);
                          p5 = map_txq q
                                 (\<lambda>t. t\<lparr>tx_skbuff := (tx_skbuff t)[skb_dirtytx0 := None],
                                         num_txbdfree := num_txbdfree t + nr_txbds\<rparr>) p4
                      in
                      if tx_in_flight p5 q < tx_in_flight priv q then
                        gfar_clean_tx_ring_loop q bdp2
                          ((skb_dirtytx0 + 1) AND TX_RING_MOD_MASK tx_ring_size0)
                          (tx_work_limit - 1) (howmany + 1) p5
                      else Inl OutOfBounds)))"
  by pat_completeness auto
termination
  by (relation "measure (\<lambda>(q, bdp, d, lim, howmany, priv). tx_in_flight priv q)") auto

declare gfar_clean_tx_ring_loop.simps [simp del]

definition gfar_clean_tx_ring :: "nat \<Rightarrow> int \<Rightarrow> gfar_private \<Rightarrow> fault + (nat \<times> gfar_private)" where
  "gfar_clean_tx_ring q tx_work_limit priv =
     (case gfar_clean_tx_ring_loop q (dirty_tx (tx_queue priv ! q))
             (skb_dirtytx (tx_queue priv ! q)) tx_work_limit 0 priv of
        Inl f \<Rightarrow> Inl f
      | Inr (bdp, skb_dirtytx1, howmany, p) \<Rightarrow>
          let p1 = (if tx_stopped (tx_queue p ! q) \<and> num_txbdfree (tx_queue p ! q) \<noteq> 0
                    then netif_wake_subqueue q p else p)
          in Inr (howmany,
                  map_txq q (\<lambda>t. t\<lparr>skb_dirtytx := skb_dirtytx1, dirty_tx := bdp\<rparr>) p1))"

section \<open>A small device for the scenarios\<close>

text \<open>
  One transmit and one receive ring of four descriptors, one interrupt group, and a recycle
  context whose local list (of processor 0) lives at address 1 and whose global list at
  address 2, each bounded by two buffers. The receive buffers are at \<open>4096, 8192, ...\<close>.
\<close>

definition example_skb :: "nat \<Rightarrow> sk_buff" where
  "example_skb a = gfar_align_skb (fresh_skb a (1536 + RXBUF_ALIGNMENT))"

definition example_tx_q :: gfar_priv_tx_q where
  "example_tx_q =
     \<lparr>tx_bd_base = [\<lparr>lstatus = 0, bufPtr = 0\<rparr>, \<lparr>lstatus = 0, bufPtr = 0\<rparr>,
                    \<lparr>lstatus = 0, bufPtr = 0\<rparr>,
                    \<lparr>lstatus = BD_LFLAG TXBD_WRAP, bufPtr = 0\<rparr>],
      tx_bd_dma_base = 65536, tx_ring_size = 4, cur_tx = 0, dirty_tx = 0,
      tx_skbuff = [None, None, None, None], tx_skbuff_ptr = Some 70000,
      skb_curtx = 0, skb_dirtytx = 0, num_txbdfree = 4, tx_qindex = 0, tx_grp = 0,
      tx_bytes = 0, tx_packets = 0, tx_stopped = False\<rparr>"

definition example_rx_bd :: "nat \<Rightarrow> rxbd8" where
  "example_rx_bd i =
     \<lparr>lstatus = BD_LFLAG (RXBD_EMPTY OR RXBD_INTERRUPT)
                  OR (if i = 3 then BD_LFLAG RXBD_WRAP else 0),
      bufPtr = of_nat (data (example_skb (4096 * (i + 1))))\<rparr>"

definition example_rx_q :: gfar_priv_rx_q where
  "example_rx_q =
     \<lparr>rx_bd_base = map example_rx_bd [0, 1, 2, 3],
      rx_ring_size = 4, cur_rx = 0,
      rx_skbuff = map (\<lambda>i. Some (example_skb (4096 * (i + 1)))) [0, 1, 2, 3],
      rx_skbuff_ptr = Some 71000, skb_currx = 0, rx_qindex = 0,
      rx_packets = 0, rx_bytes = 0, rx_dropped = 0\<rparr>"

definition example_grp :: gfar_priv_grp where
  "example_grp =
     \<lparr>regs = \<lparr>imask = 0, ievent = 0, dmactrl = 0, maccfg1 = 5, rstat = 0, tstat = 0\<rparr>,
      rstat_prev = 0, rx_bit_map = 1, tx_bit_map = 1, napi_rx_scheduled = True\<rparr>"

definition example_priv :: gfar_private where
  "example_priv =
     \<lparr>tx_queue = [example_tx_q], rx_queue = [example_rx_q], gfargrp = [example_grp],
      recycle = \<lparr>local_percpu = (\<lambda>_. \<lparr>recycle_q = 1, free_count = 0, alloc_count = 0\<rparr>),
                 global_recycle_q = Some 2, recycle_max = 2,
                 free_swap_count = 0, alloc_swap_count = 0\<rparr>,
      rx_buffer_size = 1536,
      stats = \<lparr>rx_length_errors = 0, rx_frame_errors = 0, rx_crc_errors = 0,
               tx_errors = 0, tx_fifo_errors = 0\<rparr>,
      extra_stats = \<lparr>rx_trunc = 0, rx_large = 0, rx_short = 0, rx_nonoctet = 0,
                     rx_crcerr = 0, rx_overrun = 0, rx_skbmissing = 0, kernel_dropped = 0\<rparr>,
      hwts_tx_en = False, hwts_tx_en_ioctl = False,
      errata_76 = False, errata_12 = False, errata_a002 = False,
      feat_rxcsum = False, feat_hw_vlan_rx = False, feat_hw_vlan_tx = False,
      has_timer = False, padding = 0,
      skb_queue_mem = (\<lambda>_. []), cur_cpu = 0, alloc_script = [],
      kfreed = [], delivered = [], netif_rx_drops = (\<lambda>_. False),
      rx_fcb = (\<lambda>_. \<lparr>fcb_flags = 0, fcb_rq = 0, fcb_vlctl = 0\<rparr>),
      rx_eth_proto = (\<lambda>_. 0x0800), recycle_trace = [],
      skb_checksum_help_ret = (\<lambda>_. 0), tcp_ack_recycles = (\<lambda>_. False), bd_trace = [],
      kmem = (\<lambda>a. a = 65536 \<or> a = 70000 \<or> a = 71000)\<rparr>"

text \<open>The device with given contents of the local and the global list and a given script.\<close>

definition pool_priv :: "sk_buff list \<Rightarrow> sk_buff list \<Rightarrow> nat option list \<Rightarrow> gfar_private" where
  "pool_priv l g scr =
     example_priv\<lparr>skb_queue_mem := (\<lambda>_. [])(1 := l, 2 := g), alloc_script := scr\<rparr>"

text \<open>
  A segment as the segmentation code builds it: a buffer of the driver's own allocation
  that carries one page fragment.
\<close>

definition nonlinear_skb :: sk_buff where
  "nonlinear_skb = (example_skb 4096)
     \<lparr>len := 1000, data_len := 900,
      frags := [\<lparr>page = 7, page_offset = 0, frag_size = 900\<rparr>]\<rparr>"

text \<open>
  The scenario device after the hardware has completed receive descriptor 0 with a good
  frame of 64 bytes, at a moment when both recycle lists are empty and the system
  allocator fails.
\<close>

definition rx_done_priv :: gfar_private where
  "rx_done_priv =
     (map_rxq 0
        (\<lambda>r. r\<lparr>rx_bd_base := (rx_bd_base r)
                  [0 := \<lparr>lstatus = BD_LFLAG (RXBD_LAST OR RXBD_INTERRUPT) OR 64,
                          bufPtr = bufPtr (rx_bd_base r ! 0)\<rparr>]\<rparr>)
        example_priv)\<lparr>alloc_script := [None]\<rparr>"

text \<open>The scenario device with a given value of the receive status register.\<close>

definition poll_priv :: "u32 \<Rightarrow> gfar_private" where
  "poll_priv w = map_grp 0 (map_regs (\<lambda>r. r\<lparr>rstat := w\<rparr>)) example_priv"

text \<open>
  The scenario device with its transmit ring exhausted, a plain packet of 100 bytes, and a
  packet that asks for checksum offload but has no headroom for the frame control block.
\<close>

definition full_priv :: gfar_private where
  "full_priv = map_txq 0 (\<lambda>t. t\<lparr>num_txbdfree := 0\<rparr>) example_priv"

definition plain_skb :: sk_buff where
  "plain_skb = (example_skb 4096)\<lparr>len := 100\<rparr>"

definition csum_skb :: sk_buff where
  "csum_skb = (example_skb 4096)\<lparr>data := 4096, len := 100, ip_summed := CHECKSUM_PARTIAL\<rparr>"

text \<open>
  A device with a transmit ring of two descriptors and two buffers on the list of the
  processor, and a large packet for segmentation: 54 bytes of headers in the linear part
  and 2000 bytes of payload in one page fragment, to be cut into segments of 1000 bytes.
\<close>

definition tso_priv :: gfar_private where
  "tso_priv =
     example_priv
       \<lparr>tx_queue := [example_tx_q
          \<lparr>tx_bd_base := [\<lparr>lstatus = 0, bufPtr = 0\<rparr>,
                          \<lparr>lstatus = BD_LFLAG TXBD_WRAP, bufPtr = 0\<rparr>],
           tx_ring_size := 2, tx_skbuff := [None, None], num_txbdfree := 2\<rparr>],
        skb_queue_mem := (\<lambda>_. [])(1 := [example_skb 8192, example_skb 12288])\<rparr>"

definition gso_skb :: sk_buff where
  "gso_skb = (example_skb 4096)
     \<lparr>len := 2054, data_len := 2000,
      frags := [\<lparr>page = 32768, page_offset = 0, frag_size = 2000\<rparr>],
      gso_size := 1000, mac_len := 14, iph_ihl := 5, th_doff := 5\<rparr>"

section \<open>Theorems\<close>

text \<open>
  C10. A received frame whose status has the TRUNCATED bit set is accounted by one
  increment of the length-error counter and one of the truncated counter and nothing else:
  the large, short, non-octet, CRC and overrun counters (and the frame-error and CRC-error
  totals) keep their values whatever other error bits the status carries, and nothing else
  of the device changes.
\<close>

theorem count_errors_truncated:
  assumes "status AND RXBD_TRUNCATED \<noteq> 0"
  shows "rx_length_errors (stats (count_errors status priv))
           = rx_length_errors (stats priv) + 1
       \<and> rx_trunc (extra_stats (count_errors status priv))
           = rx_trunc (extra_stats priv) + 1
       \<and> rx_large (extra_stats (count_errors status priv)) = rx_large (extra_stats priv)
       \<and> rx_short (extra_stats (count_errors status priv)) = rx_short (extra_stats priv)
       \<and> rx_nonoctet (extra_stats (count_errors status priv))
           = rx_nonoctet (extra_stats priv)
       \<and> rx_crcerr (extra_stats (count_errors status priv)) = rx_crcerr (extra_stats priv)
       \<and> rx_overrun (extra_stats (count_errors status priv))
           = rx_overrun (extra_stats priv)
       \<and> rx_frame_errors (stats (count_errors status priv)) = rx_frame_errors (stats priv)
       \<and> rx_crc_errors (stats (count_errors status priv)) = rx_crc_errors (stats priv)
       \<and> count_errors status priv
           = priv\<lparr>stats := (stats (count_errors status priv)),
                  extra_stats := (extra_stats (count_errors status priv))\<rparr>"
  using assms by (simp add: count_errors_def)

theorem count_errors_truncated_witness:
  "(0x3F::u16) AND RXBD_TRUNCATED \<noteq> 0
   \<and> rx_length_errors (stats (count_errors 0x3F example_priv)) = 1
   \<and> rx_trunc (extra_stats (count_errors 0x3F example_priv)) = 1
   \<and> rx_large (extra_stats (count_errors 0x3F example_priv)) = 0
   \<and> rx_crcerr (extra_stats (count_errors 0x3F example_priv)) = 0
   \<and> rx_overrun (extra_stats (count_errors 0x3F example_priv)) = 0
   \<and> rx_crc_errors (stats (count_errors 0x3F example_priv)) = 0"
proof -
  have h: "(0x3F::u16) AND RXBD_TRUNCATED \<noteq> 0"
    by (simp add: RXBD_TRUNCATED_def)
  show ?thesis
    using h count_errors_truncated [OF h, of example_priv]
    by (simp add: example_priv_def)
qed

subsection \<open>The buffer recycler\<close>

lemma skb_dequeue_Cons:
  "skb_queue_mem priv q = skb # rest \<Longrightarrow>
   skb_dequeue q priv = (Some skb, priv\<lparr>skb_queue_mem := (skb_queue_mem priv)(q := rest)\<rparr>)"
  by (simp add: skb_dequeue_def)

lemma skb_dequeue_Nil:
  "skb_queue_mem priv q = [] \<Longrightarrow> skb_dequeue q priv = (None, priv)"
  by (simp add: skb_dequeue_def)

text \<open>Facts about the scenario device with prepared lists.\<close>

lemma pool_priv_simps:
  "recycle_q (this_cpu_local (pool_priv l g s)) = 1"
  "global_recycle_q (recycle (pool_priv l g s)) = Some 2"
  "recycle_max (recycle (pool_priv l g s)) = 2"
  "skb_queue_mem (pool_priv l g s) = (\<lambda>_. [])(1 := l, 2 := g)"
  "alloc_script (pool_priv l g s) = s"
  "rx_buffer_size (pool_priv l g s) = 1536"
  "kfreed (pool_priv l g s) = []"
  by (simp_all add: pool_priv_def example_priv_def this_cpu_local_def)

lemma pool_priv_trace:
  "recycle_trace (pool_priv l g s) = []" "cur_cpu (pool_priv l g s) = 0"
  by (simp_all add: pool_priv_def example_priv_def)

text \<open>
  C4, as the source has it. Acquiring a buffer (\<open>gfar_new_skb\<close>), with \<open>lq\<close> the list the
  running processor's context points to:
  \<^item> if that list is non-empty, its first buffer is returned and removed from it, neither
    list pointer changes and the lock is not taken;
  \<^item> if it is empty and the global list \<open>g\<close> is non-empty, the lock is taken, the global
    pointer is set to \<open>lq\<close> and the lock is released; then the pointer of the processor is
    set to \<open>g\<close> and the first buffer of \<open>g\<close> is returned and removed from it;
  \<^item> if both are empty (or there is no global list), the lock is taken and released and
    then the system allocator is asked: the result is a fresh aligned buffer, or no buffer
    when the allocation fails; lists and pointers are untouched.
  The system allocator is consulted in the third case only, and never under the lock.
\<close>

theorem gfar_new_skb_acquire:
  fixes priv :: gfar_private
  defines "lq \<equiv> recycle_q (this_cpu_local priv)"
  shows
    "(\<forall>skb rest. skb_queue_mem priv lq = skb # rest \<longrightarrow>
        fst (gfar_new_skb priv) = Some skb
        \<and> skb_queue_mem (snd (gfar_new_skb priv)) = (skb_queue_mem priv)(lq := rest)
        \<and> recycle_q (this_cpu_local (snd (gfar_new_skb priv))) = lq
        \<and> global_recycle_q (recycle (snd (gfar_new_skb priv)))
            = global_recycle_q (recycle priv)
        \<and> alloc_script (snd (gfar_new_skb priv)) = alloc_script priv
        \<and> recycle_trace (snd (gfar_new_skb priv)) = Ev_dequeue lq # recycle_trace priv)
   \<and> (\<forall>g skb rest.
        skb_queue_mem priv lq = [] \<and> global_recycle_q (recycle priv) = Some g
        \<and> skb_queue_mem priv g = skb # rest \<longrightarrow>
        fst (gfar_new_skb priv) = Some skb
        \<and> recycle_q (this_cpu_local (snd (gfar_new_skb priv))) = g
        \<and> global_recycle_q (recycle (snd (gfar_new_skb priv))) = Some lq
        \<and> skb_queue_mem (snd (gfar_new_skb priv)) = (skb_queue_mem priv)(g := rest)
        \<and> alloc_script (snd (gfar_new_skb priv)) = alloc_script priv
        \<and> recycle_trace (snd (gfar_new_skb priv))
            = [Ev_dequeue g, Ev_local_store (cur_cpu priv) g, Ev_unlock,
               Ev_global_store lq, Ev_lock, Ev_dequeue lq] @ recycle_trace priv)
   \<and> (skb_queue_mem priv lq = []
        \<and> (\<forall>g. global_recycle_q (recycle priv) = Some g \<longrightarrow> skb_queue_mem priv g = [])
        \<longrightarrow>
        skb_queue_mem (snd (gfar_new_skb priv)) = skb_queue_mem priv
        \<and> recycle (snd (gfar_new_skb priv)) = recycle priv
        \<and> alloc_script (snd (gfar_new_skb priv)) = tl (alloc_script priv)
        \<and> (case alloc_script priv of
              Some a # _ \<Rightarrow>
                fst (gfar_new_skb priv)
                  = Some (gfar_align_skb (fresh_skb a (rx_buffer_size priv + RXBUF_ALIGNMENT)))
            | _ \<Rightarrow> fst (gfar_new_skb priv) = None)
        \<and> recycle_trace (snd (gfar_new_skb priv))
            = [Ev_alloc, Ev_unlock, Ev_lock, Ev_dequeue lq] @ recycle_trace priv)"
  unfolding lq_def
  by (intro conjI allI impI)
    (auto simp: gfar_new_skb_def Let_def skb_dequeue_def this_cpu_local_def
      set_this_cpu_local_def skb_queue_len_def gfar_alloc_skb_def netdev_alloc_skb_def
      recycle_log_def
      split: option.splits list.splits prod.splits)

theorem gfar_new_skb_acquire_witness:
  "fst (gfar_new_skb (pool_priv [example_skb 4096, example_skb 8192] [example_skb 12288] []))
     = Some (example_skb 4096)
   \<and> skb_queue_mem (snd (gfar_new_skb
        (pool_priv [example_skb 4096, example_skb 8192] [example_skb 12288] []))) 1
     = [example_skb 8192]
   \<and> recycle_trace (snd (gfar_new_skb
        (pool_priv [example_skb 4096, example_skb 8192] [example_skb 12288] [])))
     = [Ev_dequeue 1]
   \<and> fst (gfar_new_skb (pool_priv [] [example_skb 12288, example_skb 16384] []))
     = Some (example_skb 12288)
   \<and> recycle_q (this_cpu_local (snd (gfar_new_skb
        (pool_priv [] [example_skb 12288, example_skb 16384] [])))) = 2
   \<and> global_recycle_q (recycle (snd (gfar_new_skb
        (pool_priv [] [example_skb 12288, example_skb 16384] [])))) = Some 1
   \<and> skb_queue_mem (snd (gfar_new_skb
        (pool_priv [] [example_skb 12288, example_skb 16384] []))) 2 = [example_skb 16384]
   \<and> fst (gfar_new_skb (pool_priv [] [] [Some 20480])) = Some (example_skb 20480)
   \<and> recycle_trace (snd (gfar_new_skb (pool_priv [] [] [Some 20480])))
     = [Ev_alloc, Ev_unlock, Ev_lock, Ev_dequeue 1]
   \<and> fst (gfar_new_skb (pool_priv [] [] [None, Some 20480])) = None
   \<and> fst (gfar_new_skb (pool_priv [] [] [])) = None"
proof -
  let ?p1 = "pool_priv [example_skb 4096, example_skb 8192] [example_skb 12288] []"
  let ?p2 = "pool_priv [] [example_skb 12288, example_skb 16384] []"
  note c1 = gfar_new_skb_acquire [of ?p1, THEN conjunct1, rule_format,
      of "example_skb 4096" "[example_skb 8192]"]
  note c2 = gfar_new_skb_acquire [of ?p2, THEN conjunct2, THEN conjunct1, rule_format,
      of 2 "example_skb 12288" "[example_skb 16384]"]
  note c3 = gfar_new_skb_acquire [THEN conjunct2, THEN conjunct2, rule_format]
  show ?thesis
    using c1 c2 c3 [of "pool_priv [] [] [Some 20480]"]
      c3 [of "pool_priv [] [] [None, Some 20480]"] c3 [of "pool_priv [] [] []"]
    by (simp add: pool_priv_simps pool_priv_trace example_skb_def)
qed

text \<open>
  The claim as the spec words it has the two lists exchanged under the global lock. Only the
  global half of the exchange is: in the run below (the local list empty, the global list
  holding two buffers) the pointer of the processor is stored, and the buffer taken, after
  the lock has been released (the trace reads from the latest step back).
\<close>

theorem gfar_new_skb_lock_counterexample:
  "recycle_trace (snd (gfar_new_skb (pool_priv [] [example_skb 12288, example_skb 16384] [])))
     = [Ev_dequeue 2, Ev_local_store 0 2, Ev_unlock, Ev_global_store 1, Ev_lock, Ev_dequeue 1]"
  by (simp add: gfar_new_skb_def Let_def skb_dequeue_def this_cpu_local_def
      set_this_cpu_local_def skb_queue_len_def recycle_log_def pool_priv_def example_priv_def)

lemma recycle_strip: "skb_recycle (skb\<lparr>frags := [], data_len := 0\<rparr>) = skb_recycle skb"
  by (simp add: skb_recycle_def)

lemma enqueue_strip:
  "gfar_free_skb_enqueue (skb\<lparr>frags := [], data_len := 0\<rparr>) priv
     = gfar_free_skb_enqueue skb priv"
  unfolding gfar_free_skb_enqueue_def recycle_strip ..

text \<open>
  C5, as the source has it. Call a buffer \<open>fit\<close> when it passes the recycleable predicate, or
  when it is a non-linear buffer of the driver's own allocation size that carries page
  fragments and passes the predicate once these are dropped. Releasing a buffer
  (\<open>gfar_free_skb\<close>), with \<open>lq\<close> the running processor's list and \<open>buf\<close> the buffer reset
  and aligned:
  \<^item> a buffer that is not fit goes to the system allocator and no list or pointer changes;
  \<^item> a fit buffer is pushed on \<open>lq\<close> when \<open>lq\<close> holds fewer than \<open>recycle_max\<close> buffers;
  \<^item> when \<open>lq\<close> is full and the global list \<open>g\<close> is empty, the pointers are exchanged (the
    full list becomes the global one) and the buffer is pushed on \<open>g\<close>, now the
    processor's list;
  \<^item> when \<open>lq\<close> is full and the global list is not empty (or absent), the buffer goes to the
    system allocator and no list or pointer changes.
\<close>

theorem gfar_free_skb_release:
  fixes skb :: sk_buff and priv :: gfar_private
  defines "sz \<equiv> rx_buffer_size priv + RXBUF_ALIGNMENT"
  defines "fit \<equiv> skb_is_recycleable skb sz
                 \<or> (gfar_skb_nonlinear_recycleable skb sz \<and> nr_frags skb \<noteq> 0
                    \<and> skb_is_recycleable (skb\<lparr>frags := [], data_len := 0\<rparr>) sz)"
  defines "buf \<equiv> gfar_align_skb (skb_recycle skb)"
  defines "lq \<equiv> recycle_q (this_cpu_local priv)"
  defines "after \<equiv> gfar_free_skb skb priv"
  shows
    "(\<not> fit \<longrightarrow>
        map head (kfreed after) = head skb # map head (kfreed priv)
        \<and> skb_queue_mem after = skb_queue_mem priv \<and> recycle after = recycle priv)
   \<and> (fit \<and> length (skb_queue_mem priv lq) < recycle_max (recycle priv) \<longrightarrow>
        skb_queue_mem after = (skb_queue_mem priv)(lq := buf # skb_queue_mem priv lq)
        \<and> kfreed after = kfreed priv
        \<and> recycle_q (this_cpu_local after) = lq
        \<and> global_recycle_q (recycle after) = global_recycle_q (recycle priv))
   \<and> (\<forall>g. fit \<and> \<not> length (skb_queue_mem priv lq) < recycle_max (recycle priv)
          \<and> global_recycle_q (recycle priv) = Some g \<and> skb_queue_mem priv g = [] \<longrightarrow>
        global_recycle_q (recycle after) = Some lq
        \<and> recycle_q (this_cpu_local after) = g
        \<and> skb_queue_mem after = (skb_queue_mem priv)(g := [buf])
        \<and> kfreed after = kfreed priv)
   \<and> (fit \<and> \<not> length (skb_queue_mem priv lq) < recycle_max (recycle priv)
        \<and> (\<forall>g. global_recycle_q (recycle priv) = Some g \<longrightarrow> skb_queue_mem priv g \<noteq> [])
        \<longrightarrow>
        kfreed after = buf # kfreed priv
        \<and> skb_queue_mem after = skb_queue_mem priv \<and> recycle after = recycle priv)"
proof -
  have nofit: "\<not> fit \<Longrightarrow> map head (kfreed after) = head skb # map head (kfreed priv)
        \<and> skb_queue_mem after = skb_queue_mem priv \<and> recycle after = recycle priv"
    unfolding fit_def after_def sz_def
    by (auto simp: gfar_free_skb_def Let_def dev_kfree_skb_any_def)
  have enq: "fit \<Longrightarrow> after = gfar_free_skb_enqueue skb priv"
    unfolding fit_def after_def sz_def
    by (auto simp: gfar_free_skb_def Let_def enqueue_strip)
  have e1: "length (skb_queue_mem priv lq) < recycle_max (recycle priv) \<Longrightarrow>
        skb_queue_mem (gfar_free_skb_enqueue skb priv)
          = (skb_queue_mem priv)(lq := buf # skb_queue_mem priv lq)
        \<and> kfreed (gfar_free_skb_enqueue skb priv) = kfreed priv
        \<and> recycle_q (this_cpu_local (gfar_free_skb_enqueue skb priv)) = lq
        \<and> global_recycle_q (recycle (gfar_free_skb_enqueue skb priv))
            = global_recycle_q (recycle priv)"
    unfolding lq_def buf_def
    by (simp add: gfar_free_skb_enqueue_def Let_def skb_queue_len_def skb_queue_head_def
        set_this_cpu_local_def this_cpu_local_def recycle_log_def)
  have e2: "\<And>g. \<not> length (skb_queue_mem priv lq) < recycle_max (recycle priv) \<Longrightarrow>
        global_recycle_q (recycle priv) = Some g \<Longrightarrow> skb_queue_mem priv g = [] \<Longrightarrow>
        global_recycle_q (recycle (gfar_free_skb_enqueue skb priv)) = Some lq
        \<and> recycle_q (this_cpu_local (gfar_free_skb_enqueue skb priv)) = g
        \<and> skb_queue_mem (gfar_free_skb_enqueue skb priv) = (skb_queue_mem priv)(g := [buf])
        \<and> kfreed (gfar_free_skb_enqueue skb priv) = kfreed priv"
    unfolding lq_def buf_def
    by (simp add: gfar_free_skb_enqueue_def Let_def skb_queue_len_def skb_queue_head_def
        set_this_cpu_local_def this_cpu_local_def recycle_log_def)
  have e3: "\<not> length (skb_queue_mem priv lq) < recycle_max (recycle priv) \<Longrightarrow>
        (\<forall>g. global_recycle_q (recycle priv) = Some g \<longrightarrow> skb_queue_mem priv g \<noteq> []) \<Longrightarrow>
        kfreed (gfar_free_skb_enqueue skb priv) = buf # kfreed priv
        \<and> skb_queue_mem (gfar_free_skb_enqueue skb priv) = skb_queue_mem priv
        \<and> recycle (gfar_free_skb_enqueue skb priv) = recycle priv"
    unfolding lq_def buf_def
    by (auto simp: gfar_free_skb_enqueue_def Let_def skb_queue_len_def dev_kfree_skb_any_def
        recycle_log_def split: option.splits)
  show ?thesis
    using nofit enq e1 e2 e3 by (intro conjI allI impI) simp_all
qed

text \<open>
  The claim as the spec words it (every buffer that fails the predicate is freed and never
  enqueued) fails on a segment built by the segmentation code: it is non-linear, so it
  fails the predicate, and yet it ends on the processor's list and not with the allocator.
\<close>

theorem gfar_free_skb_nonlinear_counterexample:
  "\<not> skb_is_recycleable nonlinear_skb (rx_buffer_size example_priv + RXBUF_ALIGNMENT)
   \<and> kfreed (gfar_free_skb nonlinear_skb example_priv) = []
   \<and> map head (skb_queue_mem (gfar_free_skb nonlinear_skb example_priv) 1) = [4096]"
  by (simp add: nonlinear_skb_def example_skb_def example_priv_def gfar_free_skb_def
      skb_is_recycleable_def skb_is_nonlinear_def gfar_skb_nonlinear_recycleable_def
      fresh_skb_def gfar_align_skb_def skb_reserve_def nr_frags_def Let_def
      gfar_free_skb_enqueue_def skb_recycle_def this_cpu_local_def set_this_cpu_local_def
      skb_queue_len_def skb_queue_head_def recycle_log_def)

lemma shared_skb_not_recycleable: "\<not> skb_is_recycleable ((example_skb 4096)\<lparr>users := 2\<rparr>) (1536 + RXBUF_ALIGNMENT)"
  by (simp add: skb_is_recycleable_def)

lemma example_skb_recycleable: "skb_is_recycleable (example_skb a) (1536 + RXBUF_ALIGNMENT)"
  by (simp add: skb_is_recycleable_def example_skb_def fresh_skb_def gfar_align_skb_def skb_reserve_def skb_is_nonlinear_def)

theorem gfar_free_skb_release_witness:
  "map head (kfreed (gfar_free_skb ((example_skb 4096)\<lparr>users := 2\<rparr>) (pool_priv [] [] [])))
     = [4096]
   \<and> skb_queue_mem (gfar_free_skb ((example_skb 4096)\<lparr>users := 2\<rparr>) (pool_priv [] [] [])) 1
     = []
   \<and> map head (skb_queue_mem (gfar_free_skb (example_skb 4096)
        (pool_priv [example_skb 8192] [] [])) 1) = [4096, 8192]
   \<and> kfreed (gfar_free_skb (example_skb 4096) (pool_priv [example_skb 8192] [] [])) = []
   \<and> global_recycle_q (recycle (gfar_free_skb (example_skb 4096)
        (pool_priv [example_skb 8192, example_skb 12288] [] []))) = Some 1
   \<and> recycle_q (this_cpu_local (gfar_free_skb (example_skb 4096)
        (pool_priv [example_skb 8192, example_skb 12288] [] []))) = 2
   \<and> map head (skb_queue_mem (gfar_free_skb (example_skb 4096)
        (pool_priv [example_skb 8192, example_skb 12288] [] [])) 2) = [4096]
   \<and> map head (kfreed (gfar_free_skb (example_skb 4096)
        (pool_priv [example_skb 8192, example_skb 12288] [example_skb 16384] []))) = [4096]
   \<and> map head (skb_queue_mem (gfar_free_skb (example_skb 4096)
        (pool_priv [example_skb 8192, example_skb 12288] [example_skb 16384] [])) 1)
       = [8192, 12288]"
proof -
  let ?sh = "(example_skb 4096)\<lparr>users := 2\<rparr>"
  note a = gfar_free_skb_release [of ?sh "pool_priv [] [] []", THEN conjunct1]
  note b = gfar_free_skb_release [of "example_skb 4096" "pool_priv [example_skb 8192] [] []",
      THEN conjunct2, THEN conjunct1]
  note c = gfar_free_skb_release [of "example_skb 4096"
      "pool_priv [example_skb 8192, example_skb 12288] [] []",
      THEN conjunct2, THEN conjunct2, THEN conjunct1, rule_format, of 2]
  note d = gfar_free_skb_release [of "example_skb 4096"
      "pool_priv [example_skb 8192, example_skb 12288] [example_skb 16384] []",
      THEN conjunct2, THEN conjunct2, THEN conjunct2]
  have hd: "head (gfar_align_skb (skb_recycle (example_skb 4096))) = 4096"
    by (simp add: gfar_align_skb_def skb_recycle_def skb_reserve_def example_skb_def fresh_skb_def)
  have hs: "\<And>a. head (example_skb a) = a" "\<And>a. data_len (example_skb a) = 0"
    by (simp_all add: gfar_align_skb_def skb_reserve_def example_skb_def fresh_skb_def)
  show ?thesis
    using a b c d
    by (simp add: pool_priv_simps shared_skb_not_recycleable example_skb_recycleable hd hs gfar_skb_nonlinear_recycleable_def skb_is_nonlinear_def)
qed

subsection \<open>Receive cleanup\<close>

lemma gfar_new_skb_frame:
  assumes "gfar_new_skb priv = (r, p1)"
  shows "rx_queue p1 = rx_queue priv" "tx_queue p1 = tx_queue priv" "stats p1 = stats priv"
    "extra_stats p1 = extra_stats priv" "delivered p1 = delivered priv"
    "bd_trace p1 = bd_trace priv" "kfreed p1 = kfreed priv"
    "rx_buffer_size p1 = rx_buffer_size priv" "gfar_uses_fcb p1 = gfar_uses_fcb priv"
    "gfargrp p1 = gfargrp priv" "kmem p1 = kmem priv"
  using assms
  by (auto simp: gfar_new_skb_def Let_def skb_dequeue_def set_this_cpu_local_def
      gfar_alloc_skb_def netdev_alloc_skb_def recycle_log_def gfar_uses_fcb_def
      gfar_is_vlan_on_def
      split: option.splits list.splits prod.splits if_splits)

lemma count_errors_frame:
  "rx_queue (count_errors st p) = rx_queue p" "tx_queue (count_errors st p) = tx_queue p"
  "delivered (count_errors st p) = delivered p" "bd_trace (count_errors st p) = bd_trace p"
  "kfreed (count_errors st p) = kfreed p"
  by (simp_all add: count_errors_def Let_def)

lemma count_errors_skbmissing:
  "rx_skbmissing (extra_stats (count_errors st p)) = rx_skbmissing (extra_stats p)"
  by (simp add: count_errors_def Let_def)

lemma count_errors_cong:
  assumes "stats p = stats p'" "extra_stats p = extra_stats p'"
  shows "stats (count_errors st p) = stats (count_errors st p')"
    and "extra_stats (count_errors st p) = extra_stats (count_errors st p')"
  using assms by (simp_all add: count_errors_def Let_def)

lemma rx_bd_write_simps:
  "rx_queue (rx_bd_write q i f v p) =
     (rx_queue p)[q := (rx_queue p ! q)
        \<lparr>rx_bd_base := (rx_bd_base (rx_queue p ! q))
           [i := bd_store f v (rx_bd_base (rx_queue p ! q) ! i)]\<rparr>]"
  "bd_trace (rx_bd_write q i f v p)
     = \<lparr>w_ring = RX_ring q, w_index = i, w_field = f, w_value = v\<rparr> # bd_trace p"
  "delivered (rx_bd_write q i f v p) = delivered p"
  "stats (rx_bd_write q i f v p) = stats p"
  "extra_stats (rx_bd_write q i f v p) = extra_stats p"
  "kfreed (rx_bd_write q i f v p) = kfreed p"
  by (simp_all add: rx_bd_write_def Let_def)

lemma bd8_rebuild: "(bd::bd8)\<lparr>bufPtr := b, lstatus := l\<rparr> = \<lparr>lstatus = l, bufPtr = b\<rparr>"
  by (cases bd) simp

lemma list_update_same: "xs ! i = v \<Longrightarrow> xs[i := v] = xs"
  by auto

lemma ucast_u16_u32_u16 [simp]: "(ucast (ucast (w :: u16) :: u32) :: u16) = w"
  by (rule bit_word_eqI) (auto simp: bit_simps)

lemma bd_status_set_bd_status: "bd_status (set_bd_status s bd) = s"
  unfolding bd_status_def set_bd_status_def BD_LFLAG_def BD_LENGTH_MASK_def
  by (rule bit_word_eqI) (auto simp: bit_simps)

lemma and_or_zero_iff:
  "(s::u16) AND (a OR b) = 0 \<longleftrightarrow> s AND a = 0 \<and> s AND b = 0"
  by (simp add: bit.conj_disj_distrib or_eq_0_iff)

lemma count_errors_no_error: "st AND RXBD_ERR = 0 \<Longrightarrow> count_errors st p = p"
  by (simp add: RXBD_ERR_def and_or_zero_iff count_errors_def)

text \<open>
  C6, as the source has it. Take a turn of the receive cleanup at descriptor \<open>bdp\<close> of queue
  \<open>q\<close> in which the pool hands out no replacement buffer, the slot of the descriptor
  holding the buffer \<open>skb\<close>. Then the turn succeeds and
  \<^item> the packet is dropped: nothing is delivered to the stack, no packet is counted
    (the turn counts 0, and \<open>rx_packets\<close> and \<open>rx_bytes\<close> of the queue keep their values),
    and no buffer is released to the allocator;
  \<^item> the error accounting is that of \<open>count_errors\<close> on the status \<open>st\<close> of the descriptor,
    where an over-long frame without error bits has had its status replaced by
    \<open>RXBD_LARGE\<close> (so that it counts a length error and a large frame); no counter records
    the missing buffer: \<open>rx_skbmissing\<close> and \<open>rx_dropped\<close> keep their values, and a frame
    without error bits that fits the buffer changes no counter at all;
  \<^item> the buffer \<open>skb\<close> stays in its slot, and its address is stored into the same
    descriptor before the status word that carries the ownership flag (with the WRAP flag
    on the last descriptor);
  \<^item> every other descriptor of the ring is unchanged.
\<close>

theorem gfar_clean_rx_ring_step_alloc_failure:
  fixes priv :: gfar_private and q bdp :: nat
  defines "bd \<equiv> rx_bd_base (rx_queue priv ! q) ! bdp"
  defines "st \<equiv> (if bd_status bd AND RXBD_ERR = 0 \<and> unat (bd_length bd) > rx_buffer_size priv
                 then RXBD_LARGE else bd_status bd)"
  defines "armed \<equiv> BD_LFLAG (RXBD_EMPTY OR RXBD_INTERRUPT)
                     OR (if bdp + 1 = rx_ring_size (rx_queue priv ! q)
                         then BD_LFLAG RXBD_WRAP else 0)"
  assumes new: "gfar_new_skb priv = (None, p1)"
    and q: "q < length (rx_queue priv)"
    and bdp: "bdp < length (rx_bd_base (rx_queue priv ! q))"
    and cur: "skb_currx (rx_queue priv ! q) < length (rx_skbuff (rx_queue priv ! q))"
    and slot: "rx_skbuff (rx_queue priv ! q) ! skb_currx (rx_queue priv ! q) = Some skb"
  shows "\<exists>p'. gfar_clean_rx_ring_step q bdp priv = Inr (0, p')
     \<and> delivered p' = delivered priv \<and> kfreed p' = kfreed priv
     \<and> stats p' = stats (count_errors st priv)
     \<and> extra_stats p' = extra_stats (count_errors st priv)
     \<and> (bd_status bd AND RXBD_ERR = 0 \<and> unat (bd_length bd) \<le> rx_buffer_size priv
          \<longrightarrow> stats p' = stats priv \<and> extra_stats p' = extra_stats priv)
     \<and> rx_skbmissing (extra_stats p') = rx_skbmissing (extra_stats priv)
     \<and> rx_dropped (rx_queue p' ! q) = rx_dropped (rx_queue priv ! q)
     \<and> rx_packets (rx_queue p' ! q) = rx_packets (rx_queue priv ! q)
     \<and> rx_bytes (rx_queue p' ! q) = rx_bytes (rx_queue priv ! q)
     \<and> rx_skbuff (rx_queue p' ! q) = rx_skbuff (rx_queue priv ! q)
     \<and> rx_bd_base (rx_queue p' ! q)
         = (rx_bd_base (rx_queue priv ! q))
             [bdp := \<lparr>lstatus = armed, bufPtr = dma_map_single (data skb)\<rparr>]
     \<and> take 2 (bd_trace p')
         = [\<lparr>w_ring = RX_ring q, w_index = bdp, w_field = F_lstatus, w_value = armed\<rparr>,
            \<lparr>w_ring = RX_ring q, w_index = bdp, w_field = F_bufPtr,
             w_value = dma_map_single (data skb)\<rparr>]"
proof -
  note fr = gfar_new_skb_frame [OF new]
  have ne: "\<And>s. s AND RXBD_ERR = 0 \<Longrightarrow> stats (count_errors s priv) = stats priv
      \<and> extra_stats (count_errors s priv) = extra_stats priv"
    by (simp add: count_errors_no_error)
  have ce: "\<And>s. stats (count_errors s p1) = stats (count_errors s priv)"
    "\<And>s. extra_stats (count_errors s p1) = extra_stats (count_errors s priv)"
    "\<And>s x. stats (count_errors s (rx_bd_write q bdp F_status x p1))
        = stats (count_errors s priv)"
    "\<And>s x. extra_stats (count_errors s (rx_bd_write q bdp F_status x p1))
        = extra_stats (count_errors s priv)"
    by (rule count_errors_cong; simp add: fr rx_bd_write_simps)+
  show ?thesis
    using new q bdp cur slot fr
    unfolding bd_def st_def armed_def
    by (simp add: gfar_clean_rx_ring_step_def Let_def count_errors_frame rx_bd_write_simps
        map_rxq_def rx_bd_def gfar_new_rxbdp_def gfar_init_rxbdp_def bd_store_def
        count_errors_skbmissing bd8_rebuild list_update_same ce bd_status_set_bd_status ne
        split: option.splits)
qed

lemma rx_done_priv_new_skb:
  "gfar_new_skb rx_done_priv = (None, snd (gfar_new_skb rx_done_priv))"
  by (simp add: gfar_new_skb_def rx_done_priv_def example_priv_def map_rxq_def
      this_cpu_local_def skb_dequeue_def Let_def skb_queue_len_def gfar_alloc_skb_def
      netdev_alloc_skb_def recycle_log_def)

theorem gfar_clean_rx_ring_step_alloc_failure_witness:
  "\<exists>p'. gfar_clean_rx_ring_step 0 0 rx_done_priv = Inr (0, p')
     \<and> delivered p' = [] \<and> kfreed p' = []
     \<and> rx_skbuff (rx_queue p' ! 0) ! 0 = Some (example_skb 4096)
     \<and> rx_bd_base (rx_queue p' ! 0) ! 0
         = \<lparr>lstatus = BD_LFLAG (RXBD_EMPTY OR RXBD_INTERRUPT),
            bufPtr = dma_map_single (data (example_skb 4096))\<rparr>
     \<and> take 2 (bd_trace p')
         = [\<lparr>w_ring = RX_ring 0, w_index = 0, w_field = F_lstatus,
             w_value = BD_LFLAG (RXBD_EMPTY OR RXBD_INTERRUPT)\<rparr>,
            \<lparr>w_ring = RX_ring 0, w_index = 0, w_field = F_bufPtr,
             w_value = dma_map_single (data (example_skb 4096))\<rparr>]"
proof -
  have rq: "rx_queue rx_done_priv ! 0 =
      example_rx_q\<lparr>rx_bd_base := (rx_bd_base example_rx_q)
        [0 := \<lparr>lstatus = BD_LFLAG (RXBD_LAST OR RXBD_INTERRUPT) OR 64,
                bufPtr = bufPtr (rx_bd_base example_rx_q ! 0)\<rparr>]\<rparr>"
    "length (rx_queue rx_done_priv) = 1"
    by (simp_all add: rx_done_priv_def example_priv_def map_rxq_def)
  have h: "(0::nat) < length (rx_queue rx_done_priv)"
    "(0::nat) < length (rx_bd_base (rx_queue rx_done_priv ! 0))"
    "skb_currx (rx_queue rx_done_priv ! 0) < length (rx_skbuff (rx_queue rx_done_priv ! 0))"
    "rx_skbuff (rx_queue rx_done_priv ! 0) ! skb_currx (rx_queue rx_done_priv ! 0)
       = Some (example_skb 4096)"
    by (simp_all add: rq example_rx_q_def)
  from gfar_clean_rx_ring_step_alloc_failure
    [OF rx_done_priv_new_skb h(1) h(2) h(3) h(4)]
  obtain p' where p': "gfar_clean_rx_ring_step 0 0 rx_done_priv = Inr (0, p')"
     "delivered p' = delivered rx_done_priv" "kfreed p' = kfreed rx_done_priv"
     "rx_skbuff (rx_queue p' ! 0) = rx_skbuff (rx_queue rx_done_priv ! 0)"
     "rx_bd_base (rx_queue p' ! 0)
         = (rx_bd_base (rx_queue rx_done_priv ! 0))
             [0 := \<lparr>lstatus = BD_LFLAG (RXBD_EMPTY OR RXBD_INTERRUPT)
                       OR (if 0 + 1 = rx_ring_size (rx_queue rx_done_priv ! 0)
                           then BD_LFLAG RXBD_WRAP else 0),
                     bufPtr = dma_map_single (data (example_skb 4096))\<rparr>]"
     "take 2 (bd_trace p')
         = [\<lparr>w_ring = RX_ring 0, w_index = 0, w_field = F_lstatus,
             w_value = BD_LFLAG (RXBD_EMPTY OR RXBD_INTERRUPT)
                       OR (if 0 + 1 = rx_ring_size (rx_queue rx_done_priv ! 0)
                           then BD_LFLAG RXBD_WRAP else 0)\<rparr>,
            \<lparr>w_ring = RX_ring 0, w_index = 0, w_field = F_bufPtr,
             w_value = dma_map_single (data (example_skb 4096))\<rparr>]"
    by blast
  have d: "delivered rx_done_priv = []" "kfreed rx_done_priv = []"
    by (simp_all add: rx_done_priv_def example_priv_def map_rxq_def)
  show ?thesis
    using p' d by (simp add: rq example_rx_q_def)
qed

text \<open>
  The claim as the spec words it fails at the counter: for a good frame the turn that finds
  no replacement buffer increments no error counter at all.
\<close>

theorem gfar_clean_rx_ring_step_no_counter_counterexample:
  "\<not> isl (gfar_clean_rx_ring_step 0 0 rx_done_priv)
   \<and> fst (projr (gfar_clean_rx_ring_step 0 0 rx_done_priv)) = 0
   \<and> delivered (snd (projr (gfar_clean_rx_ring_step 0 0 rx_done_priv))) = []
   \<and> stats (snd (projr (gfar_clean_rx_ring_step 0 0 rx_done_priv))) = stats rx_done_priv
   \<and> extra_stats (snd (projr (gfar_clean_rx_ring_step 0 0 rx_done_priv)))
       = extra_stats rx_done_priv
   \<and> rx_dropped (rx_queue (snd (projr (gfar_clean_rx_ring_step 0 0 rx_done_priv))) ! 0)
       = rx_dropped (rx_queue rx_done_priv ! 0)"
  by (simp add: gfar_clean_rx_ring_step_def gfar_new_skb_def rx_done_priv_def
      example_priv_def map_rxq_def this_cpu_local_def skb_dequeue_def Let_def
      skb_queue_len_def gfar_alloc_skb_def netdev_alloc_skb_def rx_bd_def example_rx_q_def
      bd_status_def bd_length_def BD_LFLAG_def RXBD_LAST_def RXBD_INTERRUPT_def RXBD_ERR_def
      RXBD_LARGE_def RXBD_SHORT_def RXBD_NONOCTET_def RXBD_CRCERR_def RXBD_OVERRUN_def
      RXBD_TRUNCATED_def count_errors_def gfar_new_rxbdp_def gfar_init_rxbdp_def
      rx_bd_write_def recycle_log_def)

subsection \<open>The receive poll handler\<close>

lemma and_dec_odd: "(1 + 2 * a) AND (1 + 2 * a - 1) = 2 * (a::'a::len word)"
proof -
  have "(1 + 2 * a) AND (2 * a) = 2 * a"
    by (rule bit_word_eqI) (auto simp: bit_simps even_bit_succ_iff)
  then show ?thesis by simp
qed

lemma and_double_odd: "(2 * a) AND (1 + 2 * b) = 2 * ((a::'a::len word) AND b)"
  by (rule bit_word_eqI) (auto simp: bit_simps even_bit_succ_iff)

lemma and_dec_even: "(2 * a) AND (2 * a - 1) = 2 * ((a::'a::len word) AND (a - 1))"
proof -
  have e: "2 * a - 1 = 1 + 2 * (a - 1)" by simp
  show ?thesis by (simp only: e and_double_odd)
qed

lemma bit_below_top:
  assumes "a < 2 ^ (LENGTH('a) - Suc 0)" "bit (a::'a::len word) n"
  shows "Suc n < LENGTH('a)"
proof -
  have "a AND mask (LENGTH('a) - Suc 0) = a"
    using assms(1) by (simp add: less_mask_eq)
  then have "bit (a AND mask (LENGTH('a) - Suc 0)) n"
    using assms(2) by simp
  then have "n < LENGTH('a) - Suc 0"
    by (simp add: bit_simps)
  then show ?thesis by simp
qed

lemma card_bits_double:
  assumes "a < 2 ^ (LENGTH('a) - Suc 0)"
  shows "card {n. bit (2 * (a::'a::len word)) n} = card {n. bit a n}"
proof -
  have "{n. bit (2 * a) n} = Suc ` {n. bit a n}"
  proof (intro set_eqI iffI)
    fix x assume "x \<in> {n. bit (2 * a) n}"
    then show "x \<in> Suc ` {n. bit a n}"
      by (cases x) (auto simp: bit_simps)
  next
    fix x assume "x \<in> Suc ` {n. bit a n}"
    then show "x \<in> {n. bit (2 * a) n}"
      using bit_below_top [OF assms] by (auto simp: bit_simps)
  qed
  then show ?thesis by (simp add: card_image)
qed

lemma card_bits_odd:
  "card {n. bit (1 + 2 * (a::'a::len word)) n} = Suc (card {n. bit (2 * a) n})"
proof -
  have "{n. bit (1 + 2 * a) n} = insert 0 {n. bit (2 * a) n}"
    by (auto simp: bit_simps even_bit_succ_iff)
  moreover have "0 \<notin> {n. bit (2 * a) n}" by (simp add: bit_simps)
  ultimately show ?thesis by simp
qed

lemma card_bits_and_dec:
  "(w::'a::len word) \<noteq> 0 \<Longrightarrow> Suc (card {n. bit (w AND (w - 1)) n}) = card {n. bit w n}"
proof (induction w rule: word_bit_induct)
  case zero
  then show ?case by simp
next
  case (even a)
  have lt: "a AND (a - 1) < 2 ^ (LENGTH('a) - Suc 0)"
    using even.hyps(2) word_and_le2 [of a "a - 1"] by (rule_tac le_less_trans) 
  have "a \<noteq> 0" using even.hyps(1) by auto
  then have "Suc (card {n. bit (a AND (a - 1)) n}) = card {n. bit a n}"
    by (rule even.IH)
  then show ?case
    by (simp only: and_dec_even card_bits_double [OF lt] card_bits_double [OF even.hyps(2)])
next
  case (odd a)
  show ?case
    by (simp only: and_dec_odd card_bits_odd)
qed

lemma card_bits_zero_iff: "card {i. bit (w::'a::len word) i} = 0 \<longleftrightarrow> w = 0"
proof -
  have "card {i. bit w i} = 0 \<longleftrightarrow> {i. bit w i} = {}"
    by (simp add: card_eq_0_iff)
  also have "\<dots> \<longleftrightarrow> (\<forall>i. \<not> bit w i)" by blast
  also have "\<dots> \<longleftrightarrow> w = 0"
    by (auto simp: bit_eq_iff dest: bit_imp_le_length)
  finally show ?thesis .
qed

lemma count_act_qs_card:
  "count_act_qs w n = n + int (card {i. bit w i})"
proof (induction w n rule: count_act_qs.induct)
  case (1 w n)
  show ?case
  proof (cases "w = 0")
    case True
    have c: "card {i. bit w i} = 0"
      by (rule card_bits_zero_iff [THEN iffD2, OF True])
    have "count_act_qs w n = n"
      using True by (subst count_act_qs.simps) simp
    then show ?thesis using c by linarith
  next
    case False
    have "count_act_qs w n = count_act_qs (w AND (w - 1)) (n + 1)"
      using False by (subst count_act_qs.simps) simp
    also have "\<dots> = n + 1 + int (card {i. bit (w AND (w - 1)) i})"
      using "1.IH" [OF False] .
    also have "\<dots> = n + int (card {i. bit w i})"
      using card_bits_and_dec [OF False] by linarith
    finally show ?thesis .
  qed
qed

lemma c_int_div_nonneg: "0 \<le> a \<Longrightarrow> 0 < b \<Longrightarrow> c_int_div a b = a div b"
  by (cases "a = 0") (simp_all add: c_int_div_def)

lemma gfar_poll_rx_budget_eq:
  "gfar_poll_rx_budget grp budget
     = (if card {i. bit ((rstat (regs grp) AND RSTAT_RXF_ALL_MASK) OR rstat_prev grp) i} = 0
        then Inl DivideByZero
        else Inr ((rstat (regs grp) AND RSTAT_RXF_ALL_MASK) OR rstat_prev grp,
                  c_int_div budget
                    (int (card {i. bit ((rstat (regs grp) AND RSTAT_RXF_ALL_MASK)
                                         OR rstat_prev grp) i}))))"
  by (simp add: gfar_poll_rx_budget_def Let_def count_act_qs_card)

lemma step_no_div: "gfar_clean_rx_ring_step q bdp p \<noteq> Inl DivideByZero"
  by (auto simp: gfar_clean_rx_ring_step_def Let_def split: prod.splits option.splits sum.splits if_splits)

lemma loop_no_div: "gfar_clean_rx_ring_loop q bdp lim h p \<noteq> Inl DivideByZero"
proof (induction q bdp lim h p rule: gfar_clean_rx_ring_loop.induct)
  case (1 q bdp lim h p)
  show ?case
    using "1.IH" step_no_div [of q bdp p]
    by (subst gfar_clean_rx_ring_loop.simps) (auto split: sum.splits)
qed

lemma ring_no_div: "gfar_clean_rx_ring q lim p \<noteq> Inl DivideByZero"
  using loop_no_div [of q "cur_rx (rx_queue p ! q)" lim 0 p]
  by (auto simp: gfar_clean_rx_ring_def split: sum.splits)

lemma queues_no_div: "gfar_poll_rx_queues g w b qs acc \<noteq> Inl DivideByZero"
proof (induction g w b qs acc rule: gfar_poll_rx_queues.induct)
  case (1 g w b acc)
  show ?case by simp
next
  case (2 g w b i rest nd rh rc p)
  show ?case
    using "2.IH" ring_no_div [of i b p]
    by (auto simp: Let_def split: sum.splits)
qed

lemma poll_div_iff:
  "gfar_poll_rx g budget priv = Inl DivideByZero
     \<longleftrightarrow> gfar_poll_rx_budget (gfargrp priv ! g) budget = Inl DivideByZero"
  using queues_no_div
  by (auto simp: gfar_poll_rx_def Let_def split: sum.splits prod.splits)


text \<open>
  C9. In \<open>gfar_poll_rx\<close> the pending bits are the receive-frame bits of the status register
  together with the saved ones, the loop counts exactly the bits that are set, and the
  budget of each queue is the budget divided (as C divides) by that count. The division is
  unguarded: the handler faults with a division by zero exactly when no bit is pending.
\<close>

theorem gfar_poll_rx_budget_division:
  fixes priv :: gfar_private and g :: nat and budget :: int
  defines "grp \<equiv> gfargrp priv ! g"
  defines "rstat_rxf \<equiv> (rstat (regs grp) AND RSTAT_RXF_ALL_MASK) OR rstat_prev grp"
  defines "pending \<equiv> card {i. bit rstat_rxf i}"
  shows "count_act_qs rstat_rxf 0 = int pending
     \<and> gfar_poll_rx_budget grp budget
         = (if pending = 0 then Inl DivideByZero
            else Inr (rstat_rxf, c_int_div budget (int pending)))
     \<and> (0 \<le> budget \<and> pending \<noteq> 0 \<longrightarrow>
          gfar_poll_rx_budget grp budget = Inr (rstat_rxf, budget div int pending))
     \<and> (pending = 0 \<longleftrightarrow> rstat_rxf = 0)
     \<and> (gfar_poll_rx g budget priv = Inl DivideByZero \<longleftrightarrow> rstat_rxf = 0)"
proof (intro conjI impI)
  show "count_act_qs rstat_rxf 0 = int pending"
    by (simp add: count_act_qs_card pending_def)
  show b: "gfar_poll_rx_budget grp budget
         = (if pending = 0 then Inl DivideByZero
            else Inr (rstat_rxf, c_int_div budget (int pending)))"
    unfolding pending_def rstat_rxf_def by (rule gfar_poll_rx_budget_eq)
  show "gfar_poll_rx_budget grp budget = Inr (rstat_rxf, budget div int pending)"
    if "0 \<le> budget \<and> pending \<noteq> 0"
    using that by (simp add: b c_int_div_nonneg)
  show z: "pending = 0 \<longleftrightarrow> rstat_rxf = 0"
    unfolding pending_def by (rule card_bits_zero_iff)
  have "gfar_poll_rx g budget priv = Inl DivideByZero
          \<longleftrightarrow> gfar_poll_rx_budget grp budget = Inl DivideByZero"
    unfolding grp_def by (rule poll_div_iff)
  also have "\<dots> \<longleftrightarrow> pending = 0"
    by (simp add: b)
  finally show "gfar_poll_rx g budget priv = Inl DivideByZero \<longleftrightarrow> rstat_rxf = 0"
    using z by simp
qed

lemma poll_priv_grp:
  "gfargrp (poll_priv w) ! 0 = example_grp\<lparr>regs := (regs example_grp)\<lparr>rstat := w\<rparr>\<rparr>"
  by (simp add: poll_priv_def map_grp_def map_regs_def example_priv_def)

theorem gfar_poll_rx_budget_division_witness:
  "gfar_poll_rx 0 64 (poll_priv 0) = Inl DivideByZero
   \<and> gfar_poll_rx 0 64 (poll_priv 0xC0) \<noteq> Inl DivideByZero
   \<and> gfar_poll_rx_budget (gfargrp (poll_priv 0xC0) ! 0) 64 = Inr (0xC0, 32)"
proof -
  have c: "count_act_qs 0xC0 0 = 2"
    by (simp add: count_act_qs.simps)
  have r0: "(rstat (regs (gfargrp (poll_priv 0) ! 0)) AND RSTAT_RXF_ALL_MASK)
              OR rstat_prev (gfargrp (poll_priv 0) ! 0) = 0"
    by (simp add: poll_priv_grp example_grp_def)
  have r1: "(rstat (regs (gfargrp (poll_priv 0xC0) ! 0)) AND RSTAT_RXF_ALL_MASK)
              OR rstat_prev (gfargrp (poll_priv 0xC0) ! 0) = 0xC0"
    by (simp add: poll_priv_grp example_grp_def RSTAT_RXF_ALL_MASK_def)
  note t0 = gfar_poll_rx_budget_division [of "poll_priv 0" 0 64, unfolded r0]
  note t1 = gfar_poll_rx_budget_division [of "poll_priv 0xC0" 0 64, unfolded r1]
  have p: "card {i. bit (0xC0::u32) i} = 2"
    using t1 [THEN conjunct1] c by simp
  have pre: "(0::int) \<le> 64 \<and> card {i. bit (0xC0::u32) i} \<noteq> 0"
    unfolding p by simp
  note e = t1 [THEN conjunct2, THEN conjunct2, THEN conjunct1, rule_format, OF pre,
      unfolded p]
  show ?thesis
    using t0 [THEN conjunct2, THEN conjunct2, THEN conjunct2, THEN conjunct2]
      t1 [THEN conjunct2, THEN conjunct2, THEN conjunct2, THEN conjunct2] e
    by simp
qed

subsection \<open>Transmit submission\<close>

lemma gfar_start_xmit_prepare_frame:
  assumes "gfar_start_xmit_prepare skb priv = Inr (skb1, do_tstamp, p1)"
  shows "tx_queue p1 = tx_queue priv" "rx_queue p1 = rx_queue priv"
    "bd_trace p1 = bd_trace priv" "stats p1 = stats priv" "gfargrp p1 = gfargrp priv"
    "queue_mapping skb1 = queue_mapping skb" "frags skb1 = frags skb"
    "gso_size skb1 = gso_size skb"
  using assms
  by (auto simp: gfar_start_xmit_prepare_def Let_def skb_checksum_help_def
      skb_realloc_headroom_def dev_kfree_skb_any_def
      split: prod.splits if_splits option.splits list.splits)

lemma gfar_start_xmit_no_gso:
  assumes "gfar_start_xmit_prepare skb priv = Inr (skb1, do_tstamp, p1)"
    and "\<not> (skb_is_gso skb1 \<and> \<not> do_tstamp)"
  shows "gfar_start_xmit fuel skb priv = Inr (gfar_start_xmit_frame skb1 do_tstamp p1)"
  using assms by (cases fuel) (auto simp: gfar_start_xmit_with_def)

lemma gfar_start_xmit_early:
  assumes "gfar_start_xmit_prepare skb priv = Inl r"
  shows "gfar_start_xmit fuel skb priv = Inr r"
  using assms by (cases fuel) (auto simp: gfar_start_xmit_with_def)

lemma gfar_start_xmit_frame_busy:
  assumes "(if do_tstamp then nr_frags skb + 2 else nr_frags skb + 1)
             > num_txbdfree (tx_queue priv ! queue_mapping skb)"
  shows "gfar_start_xmit_frame skb do_tstamp priv
     = (NETDEV_TX_BUSY,
        (netif_tx_stop_queue (queue_mapping skb) priv)
          \<lparr>stats := (stats priv)\<lparr>tx_fifo_errors := tx_fifo_errors (stats priv) + 1\<rparr>\<rparr>)"
  unfolding gfar_start_xmit_frame_def Let_def
  by (rule if_P [OF assms])

text \<open>
  C1, as the source has it. Take a call of \<open>gfar_start_xmit\<close> that reaches the test for
  space: its opening (the checksum workaround of erratum 76, the reallocation of headroom
  for the frame control block) has not ended it, and the packet is not handed to the
  segmentation. If the queue has fewer free descriptors than the packet needs (one for each
  fragment and one for the head, and one more with a time stamp), the call returns
  \<open>NETDEV_TX_BUSY\<close>, the queue is stopped, and no descriptor of any ring is written: the
  rings and the trace of descriptor stores are as before, and so are the slots of in-flight
  buffers, the cursors and the free counts.
\<close>

theorem gfar_start_xmit_busy:
  assumes prep: "gfar_start_xmit_prepare skb priv = Inr (skb1, do_tstamp, p1)"
    and nogso: "\<not> (skb_is_gso skb1 \<and> \<not> do_tstamp)"
    and rq: "queue_mapping skb < length (tx_queue priv)"
    and full: "num_txbdfree (tx_queue priv ! queue_mapping skb)
                 < (if do_tstamp then nr_frags skb + 2 else nr_frags skb + 1)"
  shows "\<exists>p'. gfar_start_xmit fuel skb priv = Inr (NETDEV_TX_BUSY, p')
     \<and> tx_stopped (tx_queue p' ! queue_mapping skb)
     \<and> map tx_bd_base (tx_queue p') = map tx_bd_base (tx_queue priv)
     \<and> map rx_bd_base (rx_queue p') = map rx_bd_base (rx_queue priv)
     \<and> bd_trace p' = bd_trace priv
     \<and> map tx_skbuff (tx_queue p') = map tx_skbuff (tx_queue priv)
     \<and> map num_txbdfree (tx_queue p') = map num_txbdfree (tx_queue priv)
     \<and> map cur_tx (tx_queue p') = map cur_tx (tx_queue priv)
     \<and> tx_fifo_errors (stats p') = tx_fifo_errors (stats priv) + 1"
proof -
  note fr = gfar_start_xmit_prepare_frame [OF prep]
  have nf: "nr_frags skb1 = nr_frags skb" by (simp add: nr_frags_def fr)
  have full1: "(if do_tstamp then nr_frags skb1 + 2 else nr_frags skb1 + 1)
             > num_txbdfree (tx_queue p1 ! queue_mapping skb1)"
    using full by (simp only: fr nf)
  show ?thesis
    using rq
    by (simp add: gfar_start_xmit_no_gso [OF prep nogso] gfar_start_xmit_frame_busy [OF full1]
        fr netif_tx_stop_queue_def map_txq_def map_update list_update_same)
qed

lemma full_priv_txq:
  "tx_queue full_priv = [example_tx_q\<lparr>num_txbdfree := 0\<rparr>]"
  by (simp add: full_priv_def map_txq_def example_priv_def)

lemma plain_skb_prepare:
  "gfar_start_xmit_prepare plain_skb full_priv = Inr (plain_skb, False, full_priv)"
  by (simp add: gfar_start_xmit_prepare_def plain_skb_def full_priv_def map_txq_def
      example_priv_def example_skb_def fresh_skb_def gfar_align_skb_def skb_reserve_def
      SKBTX_HW_TSTAMP_def CHECKSUM_PARTIAL_def CHECKSUM_NONE_def)

theorem gfar_start_xmit_busy_witness:
  "\<exists>p'. gfar_start_xmit 0 plain_skb full_priv = Inr (NETDEV_TX_BUSY, p')
     \<and> tx_stopped (tx_queue p' ! 0)
     \<and> map tx_bd_base (tx_queue p') = [tx_bd_base example_tx_q]
     \<and> bd_trace p' = []
     \<and> tx_fifo_errors (stats p') = 1"
proof -
  have qm: "queue_mapping plain_skb = 0" "nr_frags plain_skb = 0"
    "skb_is_gso plain_skb = False"
    by (simp_all add: plain_skb_def example_skb_def fresh_skb_def gfar_align_skb_def
        skb_reserve_def nr_frags_def skb_is_gso_def)
  have h2: "\<not> (skb_is_gso plain_skb \<and> \<not> False)" by (simp add: qm)
  have h3: "queue_mapping plain_skb < length (tx_queue full_priv)"
    by (simp add: qm full_priv_txq)
  have h4: "num_txbdfree (tx_queue full_priv ! queue_mapping plain_skb)
      < (if False then nr_frags plain_skb + 2 else nr_frags plain_skb + 1)"
    by (simp add: qm full_priv_txq)
  have e: "bd_trace full_priv = []" "tx_fifo_errors (stats full_priv) = 0"
    by (simp_all add: full_priv_def map_txq_def example_priv_def)
  show ?thesis
    using gfar_start_xmit_busy [OF plain_skb_prepare h2 h3 h4, of 0]
    by (auto simp: qm full_priv_txq e simp del: gfar_start_xmit.simps)
qed

text \<open>
  The claim for every call fails on a call that ends before the test for space: the packet
  below needs a frame control block, has no headroom for it, and the allocator has no
  memory for a copy. The ring is exhausted, and yet the call returns \<open>NETDEV_TX_OK\<close> (the
  packet is dropped and counted as a transmit error) and the queue is not stopped.
\<close>

theorem gfar_start_xmit_busy_counterexample:
  "num_txbdfree (tx_queue full_priv ! queue_mapping csum_skb) < nr_frags csum_skb + 1
   \<and> gfar_start_xmit 0 csum_skb full_priv
       = Inr (NETDEV_TX_OK,
              dev_kfree_skb_any csum_skb
                (full_priv\<lparr>stats := (stats full_priv)\<lparr>tx_errors := 1\<rparr>\<rparr>))
   \<and> NETDEV_TX_OK \<noteq> NETDEV_TX_BUSY
   \<and> \<not> tx_stopped (tx_queue (dev_kfree_skb_any csum_skb
                (full_priv\<lparr>stats := (stats full_priv)\<lparr>tx_errors := 1\<rparr>\<rparr>)) ! 0)"
proof -
  have p: "gfar_start_xmit_prepare csum_skb full_priv
      = Inl (NETDEV_TX_OK,
             dev_kfree_skb_any csum_skb
               (full_priv\<lparr>stats := (stats full_priv)\<lparr>tx_errors := 1\<rparr>\<rparr>))"
    by (simp add: gfar_start_xmit_prepare_def csum_skb_def full_priv_def map_txq_def
        example_priv_def example_skb_def fresh_skb_def gfar_align_skb_def skb_reserve_def
        SKBTX_HW_TSTAMP_def skb_headroom_def GMAC_FCB_LEN_def skb_realloc_headroom_def)
  have q: "queue_mapping csum_skb = 0" "nr_frags csum_skb = 0"
    by (simp_all add: csum_skb_def example_skb_def fresh_skb_def gfar_align_skb_def
        skb_reserve_def nr_frags_def)
  show ?thesis
    by (simp add: gfar_start_xmit_early [OF p] q full_priv_txq dev_kfree_skb_any_def
        NETDEV_TX_OK_def NETDEV_TX_BUSY_def example_tx_q_def
        del: gfar_start_xmit.simps)
qed

end
